theory Spec2Isabelle
  imports Main "HOL-Library.List_Lexorder" "HOL-Library.Char_ord" "HOL-Library.Word"
begin

chapter \<open>audit-log: record identities and the audit table\<close>

text \<open>
  The development embeds two source files of the repository:
  \<^item> \<^verbatim>\<open>src/utils/primary-key.ts\<close>: \<^verbatim>\<open>extractPrimaryKey\<close>, \<^verbatim>\<open>extractPrimaryKeys\<close>,
    \<^verbatim>\<open>extractConfiguredPrimaryKey\<close> and \<^verbatim>\<open>safeStringifyForPK\<close>;
  \<^item> the schema file: the \<^verbatim>\<open>auditLogs\<close> table, \<^verbatim>\<open>assertSafeIdentifier\<close>,
    \<^verbatim>\<open>buildCreateAuditTableSQL\<close> and \<^verbatim>\<open>createAuditTableSQLFor\<close>.

  Both run on JavaScript values, so the first sections model the part of the language
  runtime the two files call: \<^verbatim>\<open>String(v)\<close>, \<^verbatim>\<open>JSON.stringify(v, replacer)\<close>,
  \<^verbatim>\<open>Object.keys\<close>, \<^verbatim>\<open>Array.prototype.sort\<close> and \<^verbatim>\<open>RegExp.prototype.test\<close>
  for the one pattern in use.
\<close>

section \<open>JavaScript values\<close>

text \<open>
  A row is a \<^verbatim>\<open>Record<string, unknown>\<close>. The values modelled are the ones a database
  driver puts into a row: \<^verbatim>\<open>undefined\<close>, \<^verbatim>\<open>null\<close>, booleans, numbers, strings,
  BigInts, \<^verbatim>\<open>Date\<close>s and references to objects. Objects live in a heap and are reached
  by address, so two fields can hold the same object and an object can reach itself.

  \<^item> A number \<open>NInt w\<close> is the double whose value is the integer \<open>sint w\<close>: one of
    the integers from \<open>-2\<^sup>5\<^sup>3\<close> to \<open>2\<^sup>5\<^sup>3 - 1\<close>, the range in which a database
    driver delivers integers as numbers. Each of them is a double, and JavaScript prints
    it in decimal, digit by digit. Larger integers are rounded or printed with an
    exponent; they, and the doubles that are no integers, have no value here.
    \<open>NNaN\<close> and \<open>NInf\<close> are \<^verbatim>\<open>NaN\<close> and the two infinities.
  \<^item> A string is a list of code units below 256; the others are outside the model.
  \<^item> A date \<open>JDate (Some t)\<close> is \<^verbatim>\<open>new Date(t)\<close>, for \<open>t\<close> in milliseconds since
    the epoch, and \<open>JDate None\<close> is an invalid date. The constructor makes an invalid
    date of a time beyond 8640000000000000 milliseconds from the epoch (\<open>timeClip\<close>).
  \<^item> An object is a plain object, given by its own enumerable properties in insertion
    order, or a plain object whose one property is a \<^verbatim>\<open>toJSON\<close> method that throws
    (\<open>ThrowingObject\<close>): the one value of the model on which \<^verbatim>\<open>JSON.stringify\<close>
    raises an exception of the caller's making. The properties hold data: no property
    of an object of the heap, and no property of a row, holds a function.
  \<^item> An address beyond the end of the heap denotes an empty plain object, so every value
    means something in every heap.
  \<^item> Rows, the \<^verbatim>\<open>primaryKeyMap\<close> and the objects of the heap have \<^verbatim>\<open>Object.prototype\<close>
    as their prototype, and \<^verbatim>\<open>Object.prototype\<close> is as the language defines it.
  \<^item> Arrays, symbols, accessor properties, proxies and objects with another prototype
    are outside the model.
\<close>

type_synonym addr = nat

datatype jsnum = NInt "54 word" | NNaN | NInf bool

datatype jsval =
    JUndefined
  | JNull
  | JBool bool
  | JNum jsnum
  | JStr string
  | JBigInt int
  | JDate "int option"
  | JRef addr

type_synonym props = "(string \<times> jsval) list"

datatype jsobj = PlainObject props | ThrowingObject

type_synonym heap = "jsobj list"

type_synonym row = "string \<rightharpoonup> jsval"

datatype exn = TypeError | RangeError | Thrown

definition objAt :: "heap \<Rightarrow> addr \<Rightarrow> jsobj" where
  "objAt h a = (if a < length h then h ! a else PlainObject [])"

subsection \<open>Reading a property\<close>

text \<open>
  \<^verbatim>\<open>obj[name]\<close> on a plain object yields the value of its own property of that name,
  and otherwise what \<^verbatim>\<open>Object.prototype\<close> holds under the name: one of its built-in
  functions, \<^verbatim>\<open>Object.prototype\<close> itself under the name \<^verbatim>\<open>__proto__\<close> (an accessor
  that returns the prototype of the object it is read from), and \<^verbatim>\<open>undefined\<close> under
  every other name. A function is given by its name; \<^verbatim>\<open>constructor\<close> is the function
  \<^verbatim>\<open>Object\<close>.
\<close>

datatype reading = Value jsval | NativeFunction string | ObjectPrototype

definition objectPrototypeMethods :: "string list" where
  "objectPrototypeMethods =
     [''__defineGetter__'', ''__defineSetter__'', ''hasOwnProperty'', ''__lookupGetter__'',
      ''__lookupSetter__'', ''isPrototypeOf'', ''propertyIsEnumerable'', ''toString'',
      ''valueOf'', ''toLocaleString'']"

definition inherited :: "string \<Rightarrow> reading" where
  "inherited name =
     (if name = ''__proto__'' then ObjectPrototype
      else if name = ''constructor'' then NativeFunction ''Object''
      else if name \<in> set objectPrototypeMethods then NativeFunction name
      else Value JUndefined)"

text \<open>
  \<^verbatim>\<open>record[field]\<close>. A row is given by its own properties. No row has an own property
  named \<^verbatim>\<open>__proto__\<close>: an object literal and a driver that assigns the columns of a
  row create none (the assignment goes to the accessor), only \<^verbatim>\<open>JSON.parse\<close>, a
  computed key in a literal and \<^verbatim>\<open>Object.defineProperty\<close> do. What a row maps that
  name to is therefore never read.
\<close>

definition getField :: "row \<Rightarrow> string \<Rightarrow> reading" where
  "getField record field =
     (if field = ''__proto__'' then ObjectPrototype
      else case record field of None \<Rightarrow> inherited field | Some v \<Rightarrow> Value v)"

text \<open>\<^verbatim>\<open>value == null\<close> holds of \<^verbatim>\<open>null\<close> and \<^verbatim>\<open>undefined\<close> only.\<close>

fun isNullish :: "reading \<Rightarrow> bool" where
  "isNullish (Value JUndefined) = True"
| "isNullish (Value JNull) = True"
| "isNullish _ = False"

subsection \<open>Properties of the object built from the key fields\<close>

text \<open>
  The object \<open>resolved\<close> of \<^verbatim>\<open>extractConfiguredPrimaryKey\<close> starts as \<^verbatim>\<open>{}\<close> and is
  given by its own properties in insertion order; a property holds what was read from
  the row.

  \<^verbatim>\<open>resolved[k] = v\<close>: an existing property keeps its place, a new one goes last.
  Under the name \<^verbatim>\<open>__proto__\<close> the assignment goes to the accessor of
  \<^verbatim>\<open>Object.prototype\<close> and creates no property; \<open>v\<close> is then what \<open>getField\<close>
  read under that name, \<^verbatim>\<open>Object.prototype\<close>, which is the prototype of \<open>resolved\<close>
  already. Under every other name \<^verbatim>\<open>Object.prototype\<close> holds a writable data
  property or nothing, and the assignment creates an own property.

  \<^verbatim>\<open>resolved[k]\<close> reads an own property, or else what is inherited.
\<close>

type_synonym fields = "(string \<times> reading) list"

fun putProp :: "(string \<times> 'a) list \<Rightarrow> string \<Rightarrow> 'a \<Rightarrow> (string \<times> 'a) list" where
  "putProp [] k v = [(k, v)]"
| "putProp ((k', v') # ps) k v = (if k' = k then (k, v) # ps else (k', v') # putProp ps k v)"

definition setProp :: "fields \<Rightarrow> string \<Rightarrow> reading \<Rightarrow> fields" where
  "setProp ps k v = (if k = ''__proto__'' then ps else putProp ps k v)"

definition getProp :: "fields \<Rightarrow> string \<Rightarrow> reading" where
  "getProp ps k = (case map_of ps k of None \<Rightarrow> inherited k | Some v \<Rightarrow> v)"

text \<open>
  The order in which \<^verbatim>\<open>Object.keys\<close> and \<^verbatim>\<open>JSON.stringify\<close> visit the properties
  of an ordinary object: array indices (canonical decimal numerals below \<open>2\<^sup>3\<^sup>2 - 1\<close>) first,
  in ascending numeric order, then the other keys in insertion order.
\<close>

definition isDigit :: "char \<Rightarrow> bool" where
  "isDigit c = (CHR ''0'' \<le> c \<and> c \<le> CHR ''9'')"

definition digitValue :: "char \<Rightarrow> nat" where
  "digitValue c = of_char c - 48"

definition parseDecimal :: "string \<Rightarrow> nat" where
  "parseDecimal s = foldl (\<lambda>n c. 10 * n + digitValue c) 0 s"

definition isArrayIndex :: "string \<Rightarrow> bool" where
  "isArrayIndex s =
     (s \<noteq> [] \<and> list_all isDigit s \<and> (s = ''0'' \<or> hd s \<noteq> CHR ''0'')
      \<and> parseDecimal s < 4294967295)"

definition enumerableOwnProperties :: "(string \<times> 'a) list \<Rightarrow> (string \<times> 'a) list" where
  "enumerableOwnProperties ps =
     sort_key (\<lambda>p. parseDecimal (fst p)) (filter (\<lambda>p. isArrayIndex (fst p)) ps)
     @ filter (\<lambda>p. \<not> isArrayIndex (fst p)) ps"

definition objectKeys :: "(string \<times> 'a) list \<Rightarrow> string list" where
  "objectKeys ps = map fst (enumerableOwnProperties ps)"

section \<open>Conversion to text\<close>

subsection \<open>Integers in decimal\<close>

definition digitChar :: "nat \<Rightarrow> char" where
  "digitChar d = ''0123456789'' ! (d mod 10)"

function decNat :: "nat \<Rightarrow> string" where
  "decNat n = (if n < 10 then [digitChar n] else decNat (n div 10) @ [digitChar (n mod 10)])"
  by pat_completeness auto
termination
  by (relation "measure id") auto

declare decNat.simps [simp del]

definition decInt :: "int \<Rightarrow> string" where
  "decInt i = (if i < 0 then CHR ''-'' # decNat (nat (- i)) else decNat (nat i))"

text \<open>\<open>padLeft w\<close> is \<^verbatim>\<open>String(n).padStart(w, "0")\<close>.\<close>

definition padLeft :: "nat \<Rightarrow> nat \<Rightarrow> string" where
  "padLeft w n = replicate (w - length (decNat n)) CHR ''0'' @ decNat n"

text \<open>\<^verbatim>\<open>Number::toString\<close> and \<^verbatim>\<open>BigInt::toString\<close>, radix 10.\<close>

fun numberToString :: "jsnum \<Rightarrow> string" where
  "numberToString (NInt w) = decInt (sint w)"
| "numberToString NNaN = ''NaN''"
| "numberToString (NInf positive) = (if positive then ''Infinity'' else ''-Infinity'')"

definition bigintToString :: "int \<Rightarrow> string" where
  "bigintToString i = decInt i"

subsection \<open>Dates\<close>

text \<open>
  \<^verbatim>\<open>TimeClip\<close>: the time value of a date is at most 8640000000000000 milliseconds
  from the epoch; \<^verbatim>\<open>new Date(t)\<close> is an invalid date beyond.
\<close>

definition timeClip :: "int option \<Rightarrow> int option" where
  "timeClip tv =
     (case tv of
        None \<Rightarrow> None
      | Some t \<Rightarrow> if \<bar>t\<bar> \<le> 8640000000000000 then Some t else None)"

text \<open>
  The calendar of ECMAScript: days are counted from 1 January 1970 in the proleptic
  Gregorian calendar, a day has 86400000 milliseconds, and the divisions round down.
  Year, month and day of month are computed from the day number counted from 1 March of
  year 0, in eras of 400 years (146097 days): \<open>d\<close> below is the day within the era,
  and the year of the era starts in March.
\<close>

definition msPerDay :: int where
  "msPerDay = 86400000"

definition dayNumber :: "int \<Rightarrow> int" where
  "dayNumber t = t div msPerDay"

definition era :: "int \<Rightarrow> int" where
  "era days = (days + 719468) div 146097"

definition dayOfEra :: "int \<Rightarrow> int" where
  "dayOfEra days = (days + 719468) mod 146097"

definition yearOfEra :: "int \<Rightarrow> int" where
  "yearOfEra d = (d - d div 1460 + d div 36524 - d div 146096) div 365"

definition dayOfYear :: "int \<Rightarrow> int" where
  "dayOfYear d = d - (365 * yearOfEra d + yearOfEra d div 4 - yearOfEra d div 100)"

definition marchMonth :: "int \<Rightarrow> int" where
  "marchMonth d = (5 * dayOfYear d + 2) div 153"

definition monthFromDays :: "int \<Rightarrow> int" where
  "monthFromDays days =
     (if marchMonth (dayOfEra days) < 10 then marchMonth (dayOfEra days) + 3
      else marchMonth (dayOfEra days) - 9)"

definition dateFromDays :: "int \<Rightarrow> int" where
  "dateFromDays days =
     dayOfYear (dayOfEra days) - (153 * marchMonth (dayOfEra days) + 2) div 5 + 1"

definition yearFromDays :: "int \<Rightarrow> int" where
  "yearFromDays days =
     yearOfEra (dayOfEra days) + era days * 400 + (if monthFromDays days \<le> 2 then 1 else 0)"

definition weekDay :: "int \<Rightarrow> nat" where
  "weekDay days = nat ((days + 4) mod 7)"

definition hourFromTime :: "int \<Rightarrow> nat" where
  "hourFromTime t = nat ((t mod msPerDay) div 3600000)"

definition minFromTime :: "int \<Rightarrow> nat" where
  "minFromTime t = nat ((t mod 3600000) div 60000)"

definition secFromTime :: "int \<Rightarrow> nat" where
  "secFromTime t = nat ((t mod 60000) div 1000)"

definition msFromTime :: "int \<Rightarrow> nat" where
  "msFromTime t = nat (t mod 1000)"

text \<open>
  \<^verbatim>\<open>Date.prototype.toISOString\<close> of a valid date: \<^verbatim>\<open>YYYY-MM-DDTHH:mm:ss.sssZ\<close> in UTC,
  with a sign and six digits for years outside 0 to 9999.
\<close>

definition isoYear :: "int \<Rightarrow> string" where
  "isoYear y =
     (if 0 \<le> y \<and> y \<le> 9999 then padLeft 4 (nat y)
      else (if y < 0 then ''-'' else ''+'') @ padLeft 6 (nat \<bar>y\<bar>))"

definition toISOString :: "int \<Rightarrow> string" where
  "toISOString t =
     isoYear (yearFromDays (dayNumber t)) @ ''-'' @ padLeft 2 (nat (monthFromDays (dayNumber t)))
     @ ''-'' @ padLeft 2 (nat (dateFromDays (dayNumber t))) @ ''T''
     @ padLeft 2 (hourFromTime t) @ '':'' @ padLeft 2 (minFromTime t) @ '':''
     @ padLeft 2 (secFromTime t) @ ''.'' @ padLeft 3 (msFromTime t) @ ''Z''"

text \<open>
  What the code takes from the host it runs on. \<^verbatim>\<open>Date.prototype.toString\<close> prints
  local time: the offset of the host from UTC in minutes and the name it prints for its
  time zone. \<^verbatim>\<open>JSON.stringify\<close> recurses on the call stack, which is finite: an
  object held by a key field is always entered, and \<open>stackDepth\<close> is the number of
  further objects, one inside the other, that can be open inside it before the stack is
  exhausted.
\<close>

record host =
  tzOffsetMinutes :: int
  tzName :: string
  stackDepth :: nat

definition dayNames :: "string list" where
  "dayNames = [''Sun'', ''Mon'', ''Tue'', ''Wed'', ''Thu'', ''Fri'', ''Sat'']"

definition monthNames :: "string list" where
  "monthNames = [''Jan'', ''Feb'', ''Mar'', ''Apr'', ''May'', ''Jun'',
                 ''Jul'', ''Aug'', ''Sep'', ''Oct'', ''Nov'', ''Dec'']"

definition localTime :: "host \<Rightarrow> int \<Rightarrow> int" where
  "localTime tz t = t + tzOffsetMinutes tz * 60000"

definition timeZoneString :: "host \<Rightarrow> string" where
  "timeZoneString tz =
     (if tzOffsetMinutes tz < 0 then ''-'' else ''+'')
     @ padLeft 2 (nat \<bar>tzOffsetMinutes tz\<bar> div 60) @ padLeft 2 (nat \<bar>tzOffsetMinutes tz\<bar> mod 60)
     @ '' ('' @ tzName tz @ '')''"

definition dateString :: "int \<Rightarrow> string" where
  "dateString t =
     dayNames ! weekDay (dayNumber t) @ '' ''
     @ monthNames ! nat (monthFromDays (dayNumber t) - 1) @ '' ''
     @ padLeft 2 (nat (dateFromDays (dayNumber t))) @ '' ''
     @ (if yearFromDays (dayNumber t) < 0 then ''-'' else '''')
     @ padLeft 4 (nat \<bar>yearFromDays (dayNumber t)\<bar>)"

definition timeString :: "int \<Rightarrow> string" where
  "timeString t =
     padLeft 2 (hourFromTime t) @ '':'' @ padLeft 2 (minFromTime t) @ '':''
     @ padLeft 2 (secFromTime t) @ '' GMT''"

definition dateToString :: "host \<Rightarrow> int option \<Rightarrow> string" where
  "dateToString tz tv =
     (case timeClip tv of
        None \<Rightarrow> ''Invalid Date''
      | Some t \<Rightarrow>
          dateString (localTime tz t) @ '' '' @ timeString (localTime tz t) @ timeZoneString tz)"

subsection \<open>\<^verbatim>\<open>String(value)\<close>\<close>

text \<open>
  \<^verbatim>\<open>String\<close> of an object converts it to a primitive with the hint \<^verbatim>\<open>string\<close>: it
  calls the \<^verbatim>\<open>toString\<close> of the object if that is a function, and otherwise its
  \<^verbatim>\<open>valueOf\<close>. A date prints itself. A plain object inherits
  \<^verbatim>\<open>Object.prototype.toString\<close>, which prints \<^verbatim>\<open>[object Object]\<close> whatever the
  object holds. If the object has an own property \<^verbatim>\<open>toString\<close>, that holds data and
  cannot be called; \<^verbatim>\<open>valueOf\<close>, own or inherited, is no function or returns the
  object itself, and the conversion ends in a \<^verbatim>\<open>TypeError\<close>.
\<close>

definition objectToString :: "jsobj \<Rightarrow> exn + string" where
  "objectToString obj =
     (case obj of
        ThrowingObject \<Rightarrow> Inr ''[object Object]''
      | PlainObject ps \<Rightarrow>
          if ''toString'' \<in> fst ` set ps then Inl TypeError else Inr ''[object Object]'')"

fun valueToString :: "host \<Rightarrow> heap \<Rightarrow> jsval \<Rightarrow> exn + string" where
  "valueToString tz h JUndefined = Inr ''undefined''"
| "valueToString tz h JNull = Inr ''null''"
| "valueToString tz h (JBool b) = Inr (if b then ''true'' else ''false'')"
| "valueToString tz h (JNum n) = Inr (numberToString n)"
| "valueToString tz h (JStr s) = Inr s"
| "valueToString tz h (JBigInt i) = Inr (bigintToString i)"
| "valueToString tz h (JDate tv) = Inr (dateToString tz tv)"
| "valueToString tz h (JRef a) = objectToString (objAt h a)"

text \<open>
  \<^verbatim>\<open>Function.prototype.toString\<close> of a built-in function, as V8 prints it, and
  \<^verbatim>\<open>String\<close> of what a property can read as.
\<close>

definition functionText :: "string \<Rightarrow> string" where
  "functionText name = ''function '' @ name @ ''() { [native code] }''"

fun jsString :: "host \<Rightarrow> heap \<Rightarrow> reading \<Rightarrow> exn + string" where
  "jsString tz h (Value v) = valueToString tz h v"
| "jsString tz h (NativeFunction name) = Inr (functionText name)"
| "jsString tz h ObjectPrototype = Inr ''[object Object]''"

section \<open>\<^verbatim>\<open>JSON.stringify\<close> with the replacer of \<^verbatim>\<open>safeStringifyForPK\<close>\<close>

subsection \<open>Text of a JSON string\<close>

text \<open>
  \<^verbatim>\<open>QuoteJSONString\<close>: the double quote and the backslash are escaped, the control
  characters have their short escapes or \<^verbatim>\<open>\u00XX\<close> in lower-case hexadecimal, and
  every other character stands for itself.
\<close>

definition hexDigit :: "nat \<Rightarrow> char" where
  "hexDigit d = ''0123456789abcdef'' ! (d mod 16)"

definition quoteChar :: "char \<Rightarrow> string" where
  "quoteChar c =
     (if c = CHR 0x08 then [CHR 0x5C, CHR ''b'']
      else if c = CHR 0x09 then [CHR 0x5C, CHR ''t'']
      else if c = CHR 0x0A then [CHR 0x5C, CHR ''n'']
      else if c = CHR 0x0C then [CHR 0x5C, CHR ''f'']
      else if c = CHR 0x0D then [CHR 0x5C, CHR ''r'']
      else if c = CHR 0x22 then [CHR 0x5C, CHR 0x22]
      else if c = CHR 0x5C then [CHR 0x5C, CHR 0x5C]
      else if (of_char c :: nat) < 32
        then [CHR 0x5C, CHR ''u'', CHR ''0'', CHR ''0'', hexDigit (of_char c div 16), hexDigit (of_char c)]
      else [c])"

definition quoteJSONString :: "string \<Rightarrow> string" where
  "quoteJSONString s = CHR 0x22 # concat (map quoteChar s) @ [CHR 0x22]"

fun joinWith :: "string \<Rightarrow> string list \<Rightarrow> string" where
  "joinWith sep [] = []"
| "joinWith sep [x] = x"
| "joinWith sep (x # y # ys) = x @ sep @ joinWith sep (y # ys)"

text \<open>
  \<^verbatim>\<open>SerializeJSONObject\<close>, once the properties are serialized: a property whose value
  serialized to \<^verbatim>\<open>undefined\<close> is left out; the members are joined by commas.
\<close>

fun member :: "string \<times> string option \<Rightarrow> string list" where
  "member (k, None) = []"
| "member (k, Some s) = [quoteJSONString k @ '':'' @ s]"

definition renderObject :: "(string \<times> string option) list \<Rightarrow> string" where
  "renderObject ms = ''{'' @ joinWith '','' (concat (map member ms)) @ ''}''"

subsection \<open>The replacer\<close>

text \<open>
  Lines 61 to 81 of \<^verbatim>\<open>primary-key.ts\<close>. The \<^verbatim>\<open>WeakSet\<close> \<open>seen\<close> is a set of
  addresses, passed in and returned. \<^verbatim>\<open>typeof value === "object"\<close> holds of dates and
  of object references; a date leaves through the branch above it.
  \<^verbatim>\<open>toISOString\<close> raises a \<^verbatim>\<open>RangeError\<close> on an invalid date.
\<close>

definition circularPlaceholder :: string where
  "circularPlaceholder = ''[Circular]''"

definition replacer :: "addr set \<Rightarrow> jsval \<Rightarrow> exn + (jsval \<times> addr set)" where
  "replacer seen v =
     (case v of
        JBigInt i \<Rightarrow> Inr (JStr (bigintToString i), seen)
      | JDate tv \<Rightarrow>
          (case timeClip tv of
             None \<Rightarrow> Inl RangeError
           | Some t \<Rightarrow> Inr (JStr (toISOString t), seen))
      | JRef a \<Rightarrow>
          (if a \<in> seen then Inr (JStr circularPlaceholder, seen)
           else Inr (JRef a, insert a seen))
      | _ \<Rightarrow> Inr (v, seen))"

subsection \<open>The traversal\<close>

text \<open>
  The second step of \<^verbatim>\<open>SerializeJSONProperty\<close>: a value with a \<^verbatim>\<open>toJSON\<close> method is
  replaced by what the method returns, before the replacer sees it.
  \<^verbatim>\<open>Date.prototype.toJSON\<close> returns \<^verbatim>\<open>null\<close> for an invalid date and the ISO string
  otherwise.
\<close>

definition toJSON :: "heap \<Rightarrow> jsval \<Rightarrow> exn + jsval" where
  "toJSON h v =
     (case v of
        JDate tv \<Rightarrow>
          (case timeClip tv of None \<Rightarrow> Inr JNull | Some t \<Rightarrow> Inr (JStr (toISOString t)))
      | JRef a \<Rightarrow> (case objAt h a of ThrowingObject \<Rightarrow> Inl Thrown | PlainObject ps \<Rightarrow> Inr v)
      | _ \<Rightarrow> Inr v)"

text \<open>
  \<^verbatim>\<open>SerializeJSONProperty\<close> and the loop of \<^verbatim>\<open>SerializeJSONObject\<close> over the
  properties. \<open>stack\<close> holds the objects being serialized inside the object built from
  the key fields: meeting one of them again is the \<^verbatim>\<open>TypeError\<close> for a cyclic
  structure, and entering one more when the call stack of the host is exhausted is the
  \<^verbatim>\<open>RangeError\<close> of the engine. A result \<open>None\<close> is \<^verbatim>\<open>undefined\<close>.
  A BigInt that reaches the last step is a \<^verbatim>\<open>TypeError\<close>; a date that reaches it is an
  object with no enumerable property.
\<close>

function serializeJSONProperty ::
    "host \<Rightarrow> heap \<Rightarrow> addr list \<Rightarrow> addr set \<Rightarrow> jsval \<Rightarrow> exn + (string option \<times> addr set)"
  and serializeJSONProperties ::
    "host \<Rightarrow> heap \<Rightarrow> addr list \<Rightarrow> addr set \<Rightarrow> props
      \<Rightarrow> exn + ((string \<times> string option) list \<times> addr set)"
where
  "serializeJSONProperty tz h stack seen v =
     (case toJSON h v of
        Inl e \<Rightarrow> Inl e
      | Inr v1 \<Rightarrow>
         (case replacer seen v1 of
            Inl e \<Rightarrow> Inl e
          | Inr (v2, seen1) \<Rightarrow>
             (case v2 of
                JUndefined \<Rightarrow> Inr (None, seen1)
              | JNull \<Rightarrow> Inr (Some ''null'', seen1)
              | JBool b \<Rightarrow> Inr (Some (if b then ''true'' else ''false''), seen1)
              | JNum n \<Rightarrow>
                  Inr (Some (case n of NInt i \<Rightarrow> numberToString n | _ \<Rightarrow> ''null''), seen1)
              | JStr s \<Rightarrow> Inr (Some (quoteJSONString s), seen1)
              | JBigInt i \<Rightarrow> Inl TypeError
              | JDate tv \<Rightarrow> Inr (Some ''{}'', seen1)
              | JRef a \<Rightarrow>
                  (if a \<in> set stack then Inl TypeError
                   else if stackDepth tz < length stack then Inl RangeError
                   else (case objAt h a of
                      ThrowingObject \<Rightarrow> Inl Thrown
                    | PlainObject ps \<Rightarrow>
                       (case serializeJSONProperties tz h (a # stack) seen1
                               (enumerableOwnProperties ps) of
                          Inl e \<Rightarrow> Inl e
                        | Inr (ms, seen2) \<Rightarrow> Inr (Some (renderObject ms), seen2)))))))"
| "serializeJSONProperties tz h stack seen [] = Inr ([], seen)"
| "serializeJSONProperties tz h stack seen ((k, v) # ps) =
     (case serializeJSONProperty tz h stack seen v of
        Inl e \<Rightarrow> Inl e
      | Inr (s, seen1) \<Rightarrow>
         (case serializeJSONProperties tz h stack seen1 ps of
            Inl e \<Rightarrow> Inl e
          | Inr (ms, seen2) \<Rightarrow> Inr ((k, s) # ms, seen2)))"
  by pat_completeness auto

text \<open>
  Termination. The replacer lets a reference through only when its address is new, and
  then adds it to \<open>seen\<close>; \<open>seen\<close> never shrinks. So each object of the heap is entered
  at most once, and an address outside the heap has no property to go through.
\<close>

lemma replacer_mono: "replacer seen v = Inr (v', seen') \<Longrightarrow> seen \<subseteq> seen'"
  by (auto simp: replacer_def split: jsval.splits option.splits if_splits)

lemma replacer_JRef:
  "replacer seen v = Inr (JRef a, seen') \<Longrightarrow> v = JRef a \<and> a \<notin> seen \<and> seen' = insert a seen"
  by (auto simp: replacer_def split: jsval.splits option.splits if_splits)

lemma seen_mono_dom:
  "serializeJSONProperty_serializeJSONProperties_dom (Inl (tz, h, st, seen, v)) \<Longrightarrow>
     (\<And>r seen'. serializeJSONProperty tz h st seen v = Inr (r, seen') \<Longrightarrow> seen \<subseteq> seen')"
  "serializeJSONProperty_serializeJSONProperties_dom (Inr (tz, h, st, seen, ps)) \<Longrightarrow>
     (\<And>ms seen'. serializeJSONProperties tz h st seen ps = Inr (ms, seen') \<Longrightarrow> seen \<subseteq> seen')"
proof (induct rule: serializeJSONProperty_serializeJSONProperties.pinduct)
  case (1 tz h st seen v)
  note eq = "1.prems"[unfolded serializeJSONProperty.psimps[OF "1.hyps"(1)]]
  show ?case
  proof (cases "toJSON h v")
    case (Inl e)
    with eq show ?thesis by simp
  next
    case v1: (Inr v1)
    show ?thesis
    proof (cases "replacer seen v1")
      case (Inl e)
      with eq v1 show ?thesis by simp
    next
      case (Inr p)
      obtain v2 s1 where p: "p = (v2, s1)" by (cases p)
      have m: "seen \<subseteq> s1" using Inr p replacer_mono by blast
      show ?thesis
      proof (cases v2)
        case (JRef a)
        show ?thesis
        proof (cases "a \<in> set st")
          case True
          with eq v1 Inr p JRef show ?thesis by simp
        next
          case False
          show ?thesis
          proof (cases "stackDepth tz < length st")
            case True
            with eq v1 Inr p JRef False show ?thesis by simp
          next
            case room: False
            show ?thesis
            proof (cases "objAt h a")
              case (PlainObject ps)
              with eq v1 Inr p JRef False room obtain ms where
                r: "serializeJSONProperties tz h (a # st) s1 (enumerableOwnProperties ps)
                      = Inr (ms, seen')"
                by (simp split: sum.splits prod.splits)
              have "s1 \<subseteq> seen'"
                using "1.hyps"(2)[OF v1 Inr p[symmetric] JRef False room PlainObject r] .
              with m show ?thesis by blast
            next
              case ThrowingObject
              with eq v1 Inr p JRef False room show ?thesis by simp
            qed
          qed
        qed
      qed (use eq v1 Inr p m in simp_all)
    qed
  qed
next
  case (2 tz h st seen)
  then show ?case by (simp add: serializeJSONProperties.psimps)
next
  case (3 tz h st seen k v ps)
  note eq = "3.prems"[unfolded serializeJSONProperties.psimps(2)[OF "3.hyps"(1)]]
  show ?case
  proof (cases "serializeJSONProperty tz h st seen v")
    case (Inl e)
    with eq show ?thesis by simp
  next
    case (Inr p)
    obtain s s1 where p: "p = (s, s1)" by (cases p)
    from eq Inr p obtain ms' where r: "serializeJSONProperties tz h st s1 ps = Inr (ms', seen')"
      by (simp split: sum.splits prod.splits)
    have "seen \<subseteq> s1" using "3.hyps"(2) Inr p by simp
    moreover have "s1 \<subseteq> seen'" using "3.hyps"(3)[OF Inr p[symmetric] r] .
    ultimately show ?thesis by blast
  qed
qed

lemma enumerableOwnProperties_Nil [simp]: "enumerableOwnProperties [] = []"
  by (simp add: enumerableOwnProperties_def)

lemma all_dom: "serializeJSONProperty_serializeJSONProperties_dom x"
proof -
  have "All serializeJSONProperty_serializeJSONProperties_dom"
  proof (relation
    "inv_image (measure id <*lex*> measure id)
       (\<lambda>x. case x of
          Inl (tz, h, st, seen, v) \<Rightarrow> (card ({..<length h} - seen), 1)
        | Inr (tz, h, st, seen, ps) \<Rightarrow> (card ({..<length h} - seen), 2 * length ps))",
    goal_cases)
  case 1
  show ?case by (intro wf_inv_image wf_lex_prod wf_measure)
next
  case (2 tz h st seen v v1 p v2 seen1 a ps)
  from 2 have r: "replacer seen v1 = Inr (JRef a, seen1)" by simp
  then have new: "a \<notin> seen" "seen1 = insert a seen" using replacer_JRef by auto
  show ?case
  proof (cases "a < length h")
    case True
    with new have "card ({..<length h} - seen1) < card ({..<length h} - seen)"
      by (intro psubset_card_mono) auto
    then show ?thesis by simp
  next
    case False
    with 2 have "ps = []" by (simp add: objAt_def)
    moreover from False new have "{..<length h} - seen1 = {..<length h} - seen" by auto
    ultimately show ?thesis by simp
  qed
next
  case (3 tz h st seen k v ps)
  then show ?case by simp
next
  case (4 tz h st seen k v ps p s seen1)
  from 4 have "serializeJSONProperty tz h st seen v = Inr (s, seen1)" by simp
  with 4 have "seen \<subseteq> seen1" using seen_mono_dom(1) by blast
  then have "card ({..<length h} - seen1) \<le> card ({..<length h} - seen)"
    by (intro card_mono) auto
  then show ?case by auto
qed
  then show ?thesis by blast
qed

termination serializeJSONProperty
  using all_dom by blast

lemma seen_mono:
  "serializeJSONProperty tz h st seen v = Inr (r, seen') \<Longrightarrow> seen \<subseteq> seen'"
  "serializeJSONProperties tz h st seen ps = Inr (ms, seen') \<Longrightarrow> seen \<subseteq> seen'"
  using seen_mono_dom all_dom by blast+

section \<open>\<^verbatim>\<open>primary-key.ts\<close>\<close>

text \<open>
  The file throws plain \<^verbatim>\<open>Error\<close>s, told apart by their messages. The specification
  calls the first a configuration error and the second a missing-key error. An exception
  raised by a built-in outside a \<^verbatim>\<open>try\<close> leaves the file uncaught.
\<close>

datatype error = Error string | Uncaught exn

definition ConfigurationError :: "string \<Rightarrow> error" where
  "ConfigurationError tableName = Error (''primaryKeyMap missing key for table: '' @ tableName)"

definition MissingKeyError :: "string \<Rightarrow> error" where
  "MissingKeyError tableName =
     Error (''primaryKeyMap fields missing in record for table: '' @ tableName)"

text \<open>
  An entry of the \<^verbatim>\<open>primaryKeyMap\<close> is a \<^verbatim>\<open>string | string[]\<close>; the map is given by
  its own properties.
\<close>

datatype key = Single string | Fields "string list"

type_synonym primaryKeyMap = "string \<rightharpoonup> key"

text \<open>
  \<^verbatim>\<open>primaryKeyMap[tableName]\<close>. When the map has no own property of that name and
  \<^verbatim>\<open>Object.prototype\<close> has one, the lookup yields a function or \<^verbatim>\<open>Object.prototype\<close>
  itself. Either is truthy and no array, so \<^verbatim>\<open>extractConfiguredPrimaryKey\<close> uses it
  as the one key; wherever it is then used as a property name it is converted to a
  string. It acts as the single field named by its \<^verbatim>\<open>String\<close>.
\<close>

definition inheritedKey :: "string \<Rightarrow> key option" where
  "inheritedKey tableName =
     (case inherited tableName of
        Value v \<Rightarrow> None
      | NativeFunction name \<Rightarrow> Some (Single (functionText name))
      | ObjectPrototype \<Rightarrow> Some (Single ''[object Object]''))"

definition lookupKey :: "primaryKeyMap \<Rightarrow> string \<Rightarrow> key option" where
  "lookupKey primaryKeyMap tableName =
     (case primaryKeyMap tableName of
        None \<Rightarrow> inheritedKey tableName
      | Some configuredKey \<Rightarrow> Some configuredKey)"

subsection \<open>\<^verbatim>\<open>safeStringifyForPK\<close>\<close>

text \<open>
  What \<^verbatim>\<open>JSON.stringify\<close> finds in a property of the object built from the key
  fields. A function is serialized as \<^verbatim>\<open>undefined\<close> is: it has no \<^verbatim>\<open>toJSON\<close>, the
  replacer returns it as it is (its \<^verbatim>\<open>typeof\<close> is \<^verbatim>\<open>"function"\<close>), and the serializer
  gives \<^verbatim>\<open>undefined\<close> for a value that can be called. \<^verbatim>\<open>Object.prototype\<close> is an
  object without enumerable property, as is the object at the first address beyond the
  heap, which stands for it.
\<close>

definition jsonValue :: "heap \<Rightarrow> reading \<Rightarrow> jsval" where
  "jsonValue h v =
     (case v of
        Value x \<Rightarrow> x
      | NativeFunction name \<Rightarrow> JUndefined
      | ObjectPrototype \<Rightarrow> JRef (length h))"

text \<open>
  \<^verbatim>\<open>JSON.stringify(record, replacer)\<close> for the object \<open>record\<close> that
  \<^verbatim>\<open>extractConfiguredPrimaryKey\<close> has just built. The first call of the replacer adds
  that object to \<open>seen\<close>, and the serializer puts it on its stack; the object is new, so
  no value of the heap or of the row is a reference to it and neither entry is ever
  looked up. The traversal therefore starts at its properties, with both empty. The
  object has no \<^verbatim>\<open>toJSON\<close> to call: it inherits none, and an own property of that name
  holds data.
\<close>

definition stringifyRecord :: "host \<Rightarrow> heap \<Rightarrow> fields \<Rightarrow> exn + string" where
  "stringifyRecord tz h record =
     (case serializeJSONProperties tz h [] {}
             (map (\<lambda>(k, v). (k, jsonValue h v)) (enumerableOwnProperties record)) of
        Inl e \<Rightarrow> Inl e
      | Inr (ms, seen) \<Rightarrow> Inr (renderObject ms))"

text \<open>
  The \<^verbatim>\<open>catch\<close> branch: \<^verbatim>\<open>Object.keys(record).sort()\<close> orders the names by their
  code units, \<^verbatim>\<open>join("_")\<close> glues them.
\<close>

definition fallbackKey :: "fields \<Rightarrow> string" where
  "fallbackKey record =
     (let keys = sort (objectKeys record)
      in ''composite_key_'' @ joinWith ''_'' keys @ ''_'' @ decNat (length keys))"

definition safeStringifyForPK :: "host \<Rightarrow> heap \<Rightarrow> fields \<Rightarrow> string" where
  "safeStringifyForPK tz h record =
     (case stringifyRecord tz h record of
        Inr s \<Rightarrow> s
      | Inl e \<Rightarrow> fallbackKey record)"

subsection \<open>\<^verbatim>\<open>extractConfiguredPrimaryKey\<close>\<close>

text \<open>
  The loop over \<open>keys\<close>: it returns \<^verbatim>\<open>null\<close> (here \<open>None\<close>) at the first field whose
  value is \<^verbatim>\<open>null\<close> or \<^verbatim>\<open>undefined\<close>, and otherwise copies the field into
  \<open>resolved\<close>.
\<close>

fun resolveFields :: "row \<Rightarrow> string list \<Rightarrow> fields \<Rightarrow> fields option" where
  "resolveFields record [] resolved = Some resolved"
| "resolveFields record (field # keys) resolved =
     (let v = getField record field
      in if isNullish v then None else resolveFields record keys (setProp resolved field v))"

text \<open>\<^verbatim>\<open>Array.isArray(key) ? key : [key]\<close>\<close>

definition configuredFields :: "key \<Rightarrow> string list" where
  "configuredFields k = (case k of Single f \<Rightarrow> [f] | Fields fs \<Rightarrow> fs)"

text \<open>
  The function returns \<^verbatim>\<open>null\<close> (\<open>Inr None\<close>) or a string, or \<^verbatim>\<open>String\<close> raises
  on line 47, outside any \<^verbatim>\<open>try\<close>.
\<close>

definition extractConfiguredPrimaryKey ::
    "host \<Rightarrow> heap \<Rightarrow> row \<Rightarrow> key \<Rightarrow> exn + string option" where
  "extractConfiguredPrimaryKey tz h record k =
     (let keys = configuredFields k in
      case resolveFields record keys [] of
        None \<Rightarrow> Inr None
      | Some resolved \<Rightarrow>
          if length keys = 1 then
            (case jsString tz h (getProp resolved (keys ! 0)) of
               Inl e \<Rightarrow> Inl e
             | Inr s \<Rightarrow> Inr (Some s))
          else Inr (Some (safeStringifyForPK tz h resolved)))"

subsection \<open>\<^verbatim>\<open>extractPrimaryKey\<close> and \<^verbatim>\<open>extractPrimaryKeys\<close>\<close>

text \<open>
  \<^verbatim>\<open>!configuredKey\<close> holds when the lookup finds nothing and when the entry is the
  empty string; an array, even an empty one, is truthy.
\<close>

definition extractPrimaryKey ::
    "host \<Rightarrow> heap \<Rightarrow> row \<Rightarrow> string \<Rightarrow> primaryKeyMap \<Rightarrow> error + string" where
  "extractPrimaryKey tz h record tableName primaryKeyMap =
     (case lookupKey primaryKeyMap tableName of
        None \<Rightarrow> Inl (ConfigurationError tableName)
      | Some configuredKey \<Rightarrow>
          if configuredKey = Single [] then Inl (ConfigurationError tableName)
          else (case extractConfiguredPrimaryKey tz h record configuredKey of
                  Inl e \<Rightarrow> Inl (Uncaught e)
                | Inr None \<Rightarrow> Inl (MissingKeyError tableName)
                | Inr (Some configured) \<Rightarrow> Inr configured))"

text \<open>\<^verbatim>\<open>records.map\<close>: the first row that fails ends the call.\<close>

fun extractPrimaryKeys ::
    "host \<Rightarrow> heap \<Rightarrow> row list \<Rightarrow> string \<Rightarrow> primaryKeyMap \<Rightarrow> error + string list" where
  "extractPrimaryKeys tz h [] tableName primaryKeyMap = Inr []"
| "extractPrimaryKeys tz h (record # records) tableName primaryKeyMap =
     (case extractPrimaryKey tz h record tableName primaryKeyMap of
        Inl e \<Rightarrow> Inl e
      | Inr pk \<Rightarrow>
         (case extractPrimaryKeys tz h records tableName primaryKeyMap of
            Inl e \<Rightarrow> Inl e
          | Inr pks \<Rightarrow> Inr (pk # pks)))"

section \<open>The schema file\<close>

subsection \<open>The \<^verbatim>\<open>auditLogs\<close> table\<close>

datatype columnType = BigSerial | Varchar nat | Text | Jsonb | TimestampTz

record column =
  property :: string
  columnName :: string
  columnType :: columnType
  notNull :: bool
  primaryKey :: bool
  defaultNow :: bool

definition col :: "string \<Rightarrow> string \<Rightarrow> columnType \<Rightarrow> column" where
  "col p n t = \<lparr>property = p, columnName = n, columnType = t,
                notNull = False, primaryKey = False, defaultNow = False\<rparr>"

text \<open>
  The columns as the file declares them. A column is nullable unless it is declared
  \<^verbatim>\<open>notNull()\<close>; a \<^verbatim>\<open>bigserial\<close> column is not null by its type.
\<close>

definition auditLogs :: "column list" where
  "auditLogs =
     [ (col ''id'' ''id'' BigSerial)\<lparr>notNull := True, primaryKey := True\<rparr>,
       col ''userId'' ''user_id'' (Varchar 255),
       col ''ipAddress'' ''ip_address'' (Varchar 45),
       col ''userAgent'' ''user_agent'' Text,
       (col ''action'' ''action'' (Varchar 255))\<lparr>notNull := True\<rparr>,
       (col ''tableName'' ''table_name'' (Varchar 255))\<lparr>notNull := True\<rparr>,
       (col ''recordId'' ''record_id'' (Varchar 255))\<lparr>notNull := True\<rparr>,
       col ''values'' ''values'' Jsonb,
       (col ''createdAt'' ''created_at'' TimestampTz)\<lparr>notNull := True, defaultNow := True\<rparr>,
       col ''metadata'' ''metadata'' Jsonb,
       col ''transactionId'' ''transaction_id'' (Varchar 255),
       col ''deletedAt'' ''deleted_at'' TimestampTz ]"

text \<open>The indexes of the table: name and the properties indexed.\<close>

definition auditLogsIndexes :: "(string \<times> string list) list" where
  "auditLogsIndexes =
     [ (''idx_audit_logs_table_record'', [''tableName'', ''recordId'']),
       (''idx_audit_logs_user_id'', [''userId'']),
       (''idx_audit_logs_created_at'', [''createdAt'']),
       (''idx_audit_logs_action'', [''action'']),
       (''idx_audit_logs_table_created'', [''tableName'', ''createdAt'']) ]"

subsection \<open>The migration\<close>

definition DEFAULT_TABLE_NAME :: string where
  "DEFAULT_TABLE_NAME = ''audit_logs''"

text \<open>
  \<^verbatim>\<open>/^[a-zA-Z_][a-zA-Z0-9_]*$/.test(name)\<close>. The pattern has no flag, so \<^verbatim>\<open>^\<close> and
  \<^verbatim>\<open>$\<close> are the two ends of the whole string.
\<close>

definition isIdentStart :: "char \<Rightarrow> bool" where
  "isIdentStart c =
     ((CHR ''a'' \<le> c \<and> c \<le> CHR ''z'') \<or> (CHR ''A'' \<le> c \<and> c \<le> CHR ''Z'') \<or> c = CHR ''_'')"

definition isIdentPart :: "char \<Rightarrow> bool" where
  "isIdentPart c =
     ((CHR ''a'' \<le> c \<and> c \<le> CHR ''z'') \<or> (CHR ''A'' \<le> c \<and> c \<le> CHR ''Z'')
      \<or> (CHR ''0'' \<le> c \<and> c \<le> CHR ''9'') \<or> c = CHR ''_'')"

fun matchesIdentifier :: "string \<Rightarrow> bool" where
  "matchesIdentifier [] = False"
| "matchesIdentifier (c # cs) = (isIdentStart c \<and> list_all isIdentPart cs)"

definition assertSafeIdentifier :: "string \<Rightarrow> error + unit" where
  "assertSafeIdentifier name =
     (if \<not> matchesIdentifier name then Inl (Error (''Invalid table name: '' @ name))
      else Inr ())"

text \<open>
  The template literal of \<^verbatim>\<open>buildCreateAuditTableSQL\<close>, line by line. It opens with a
  line break, so its first line is empty, and every line ends with a line break.
\<close>

definition auditTableSQLLines :: "string \<Rightarrow> string list" where
  \<open>auditTableSQLLines tableName =
     [ '''',
       ''-- Prevent concurrent test runs from racing on schema creation'',
       ''SELECT pg_advisory_xact_lock(913742, 540129);'',
       '''',
       ''CREATE SEQUENCE IF NOT EXISTS '' @ tableName @ ''_id_seq;'',
       '''',
       ''CREATE TABLE IF NOT EXISTS '' @ tableName @ '' ('',
       ''  id BIGINT PRIMARY KEY DEFAULT nextval('' @ [CHR 0x27] @ tableName @ ''_id_seq'' @ [CHR 0x27] @ ''),'',
       ''  '',
       ''  user_id VARCHAR(255),'',
       ''  ip_address VARCHAR(45),'',
       ''  user_agent TEXT,'',
       ''  '',
       ''  action VARCHAR(255) NOT NULL,'',
       ''  table_name VARCHAR(255) NOT NULL,'',
       ''  record_id VARCHAR(255) NOT NULL,'',
       ''  '',
       ''  "values" JSONB,'',
       ''  '',
       ''  created_at TIMESTAMPTZ NOT NULL DEFAULT NOW(),'',
       ''  '',
       ''  metadata JSONB,'',
       ''  transaction_id VARCHAR(255),'',
       ''  '',
       ''  deleted_at TIMESTAMPTZ'',
       '');'',
       '''',
       ''ALTER SEQUENCE '' @ tableName @ ''_id_seq OWNED BY '' @ tableName @ ''.id;'',
       '''',
       ''-- Ensure custom actions are allowed when table already exists'',
       ''ALTER TABLE '' @ tableName @ '' DROP CONSTRAINT IF EXISTS audit_logs_action_check;'',
       ''ALTER TABLE '' @ tableName @ '' ALTER COLUMN action TYPE VARCHAR(255);'',
       '''',
       ''CREATE INDEX IF NOT EXISTS idx_audit_logs_table_record ON '' @ tableName @ ''(table_name, record_id);'',
       ''CREATE INDEX IF NOT EXISTS idx_audit_logs_user_id ON '' @ tableName @ ''(user_id) WHERE user_id IS NOT NULL;'',
       ''CREATE INDEX IF NOT EXISTS idx_audit_logs_created_at ON '' @ tableName @ ''(created_at DESC);'',
       ''CREATE INDEX IF NOT EXISTS idx_audit_logs_action ON '' @ tableName @ ''(action);'',
       ''CREATE INDEX IF NOT EXISTS idx_audit_logs_table_created ON '' @ tableName @ ''(table_name, created_at DESC);'',
       '''',
       ''COMMENT ON TABLE '' @ tableName @ '' IS '' @ [CHR 0x27] @ ''Audit trail for all database operations'' @ [CHR 0x27] @ '';'' ]\<close>

definition unlines :: "string list \<Rightarrow> string" where
  "unlines ls = concat (map (\<lambda>l. l @ [CHR 0x0A]) ls)"

definition buildCreateAuditTableSQL :: "string \<Rightarrow> error + string" where
  "buildCreateAuditTableSQL tableName =
     (case assertSafeIdentifier tableName of
        Inl e \<Rightarrow> Inl e
      | Inr u \<Rightarrow> Inr (unlines (auditTableSQLLines tableName)))"

definition createAuditTableSQL :: "error + string" where
  "createAuditTableSQL = buildCreateAuditTableSQL DEFAULT_TABLE_NAME"

text \<open>The parameter has a default, used when the caller passes nothing.\<close>

definition createAuditTableSQLFor :: "string option \<Rightarrow> error + string" where
  "createAuditTableSQLFor tableName =
     buildCreateAuditTableSQL (case tableName of None \<Rightarrow> DEFAULT_TABLE_NAME | Some n \<Rightarrow> n)"

subsection \<open>Reading the generated SQL\<close>

text \<open>
  What the statements of the migration name, read off its text: the lines, the index
  each \<^verbatim>\<open>CREATE INDEX IF NOT EXISTS\<close> line creates and the table it is on, and the
  lines that declare a \<^verbatim>\<open>JSONB\<close> column (they end with the type, or with the type
  and a comma).
\<close>

fun splitLines :: "string \<Rightarrow> string \<Rightarrow> string list" where
  "splitLines acc [] = (if acc = [] then [] else [rev acc])"
| "splitLines acc (c # cs) =
     (if c = CHR 0x0A then rev acc # splitLines [] cs else splitLines (c # acc) cs)"

definition sqlLines :: "string \<Rightarrow> string list" where
  "sqlLines sql = splitLines [] sql"

fun stripPrefix :: "string \<Rightarrow> string \<Rightarrow> string option" where
  "stripPrefix [] s = Some s"
| "stripPrefix (p # ps) [] = None"
| "stripPrefix (p # ps) (c # cs) = (if p = c then stripPrefix ps cs else None)"

definition endsWith :: "string \<Rightarrow> string \<Rightarrow> bool" where
  "endsWith suffix s = (stripPrefix (rev suffix) (rev s) \<noteq> None)"

definition createdIndex :: "string \<Rightarrow> (string \<times> string) option" where
  "createdIndex line =
     (case stripPrefix ''CREATE INDEX IF NOT EXISTS '' line of
        None \<Rightarrow> None
      | Some rest \<Rightarrow>
         (let name = takeWhile (\<lambda>c. c \<noteq> CHR '' '') rest in
          case stripPrefix '' ON '' (dropWhile (\<lambda>c. c \<noteq> CHR '' '') rest) of
            None \<Rightarrow> None
          | Some target \<Rightarrow> Some (name, takeWhile (\<lambda>c. c \<noteq> CHR ''('') target)))"

definition createdIndexes :: "string \<Rightarrow> (string \<times> string) list" where
  "createdIndexes sql = List.map_filter createdIndex (sqlLines sql)"

definition declaresJsonbColumn :: "string \<Rightarrow> bool" where
  "declaresJsonbColumn line = (endsWith '' JSONB,'' line \<or> endsWith '' JSONB'' line)"

definition jsonbColumnLines :: "string \<Rightarrow> string list" where
  "jsonbColumnLines sql = filter declaresJsonbColumn (sqlLines sql)"

section \<open>The DELETE path of the engine\<close>

text \<open>
  The code that intercepts statements and builds audit records
  (\<^verbatim>\<open>createAuditLogger\<close>) is not among the source files; only its test and the notes
  under \<^verbatim>\<open>history/\<close> are. What a DELETE runs through is therefore taken from the
  specification: the data flow of section 2, the Snapshot Fetcher (section 4.2) and the
  Audit Record Builder (section 4.4). The identity of a row is \<open>extractPrimaryKey\<close>,
  which is code of the repository.
\<close>

text \<open>
  Modelled from the spec: the kinds of statement and the two acquisition strategies of
  section 4.2, in place of the interception layer, which is missing.
\<close>

datatype action = INSERT | UPDATE | DELETE

datatype strategy = ExplicitRead | Returning

text \<open>
  Modelled from the spec: the configuration of the missing engine. Section 4.2 names one
  switch, capture of the before-state.
\<close>

record auditConfig =
  captureBefore :: bool

text \<open>
  Modelled from the spec: the AuditRecord of section 3, without the fields the store
  assigns and the ambient context. A snapshot is kept as the row itself.
\<close>

record auditRecord =
  action :: action
  tableName :: string
  recordId :: string
  oldValues :: "row option"
  newValues :: "row option"
  changedFields :: "string list option"

text \<open>
  Modelled from the spec: the choice of strategy of the missing Snapshot Fetcher
  (section 4.2). The explicit read is used only for UPDATE with capture enabled; the
  returning strategy is used for DELETE unconditionally, and for INSERT and UPDATE to
  obtain the after-state.
\<close>

fun acquisition :: "auditConfig \<Rightarrow> action \<Rightarrow> strategy list" where
  "acquisition cfg INSERT = [Returning]"
| "acquisition cfg UPDATE = (if captureBefore cfg then [ExplicitRead, Returning] else [Returning])"
| "acquisition cfg DELETE = [Returning]"

text \<open>
  Modelled from the spec: a DELETE statement as the missing interception layer sees it
  (section 2): its target table, and whether the caller asked it to report the rows it
  removes.
\<close>

record deleteStatement =
  target :: string
  requestsReturning :: bool

text \<open>
  Modelled from the spec: the returning strategy of section 4.2. The missing
  interception layer makes the statement request the report of the removed rows even if
  the caller did not; the store reports the rows a statement removes when the statement
  requests it, and nothing otherwise.
\<close>

definition interceptDelete :: "auditConfig \<Rightarrow> deleteStatement \<Rightarrow> deleteStatement" where
  "interceptDelete cfg stmt =
     (if Returning \<in> set (acquisition cfg DELETE) then stmt\<lparr>requestsReturning := True\<rparr>
      else stmt)"

definition reportedRows :: "deleteStatement \<Rightarrow> row list \<Rightarrow> row list" where
  "reportedRows stmt removed = (if requestsReturning stmt then removed else [])"

text \<open>
  Modelled from the spec: the record the missing Audit Record Builder (section 4.4)
  makes of one row of a DELETE, which supplies \<open>before\<close> only: the identity of the row
  as \<open>recordId\<close>, the action verbatim, the row as \<open>oldValues\<close>, no \<open>newValues\<close>
  and no \<open>changedFields\<close>.
\<close>

definition deleteRecord :: "string \<Rightarrow> row \<Rightarrow> string \<Rightarrow> auditRecord" where
  "deleteRecord table before identity =
     \<lparr>action = DELETE, tableName = table, recordId = identity,
      oldValues = Some before, newValues = None, changedFields = None\<rparr>"

text \<open>
  Modelled from the spec: the missing Audit Record Builder (section 4.4) on the rows of
  a DELETE, one record per row. A row whose identity cannot be resolved aborts the
  batch: no record of it is kept.
\<close>

fun buildDeleteRecords ::
    "host \<Rightarrow> heap \<Rightarrow> string \<Rightarrow> primaryKeyMap \<Rightarrow> row list \<Rightarrow> error + auditRecord list" where
  "buildDeleteRecords tz h table pkSpec [] = Inr []"
| "buildDeleteRecords tz h table pkSpec (before # rows) =
     (case extractPrimaryKey tz h before table pkSpec of
        Inl e \<Rightarrow> Inl e
      | Inr identity \<Rightarrow>
         (case buildDeleteRecords tz h table pkSpec rows of
            Inl e \<Rightarrow> Inl e
          | Inr records \<Rightarrow> Inr (deleteRecord table before identity # records)))"

text \<open>
  Modelled from the spec: the missing engine on one DELETE statement (section 2, data
  flow): the statement is intercepted and executed, \<open>removed\<close> being the rows it
  removes, and the records are built from the rows it reports.
\<close>

definition auditDelete ::
    "auditConfig \<Rightarrow> host \<Rightarrow> heap \<Rightarrow> primaryKeyMap \<Rightarrow> deleteStatement \<Rightarrow> row list
      \<Rightarrow> error + auditRecord list" where
  "auditDelete cfg tz h pkSpec stmt removed =
     buildDeleteRecords tz h (target stmt) pkSpec
       (reportedRows (interceptDelete cfg stmt) removed)"

section \<open>Reading the output of the serializer\<close>

text \<open>
  Two notions used to state what the serializer does with cycles.

  \<open>path h a ks bs\<close>: starting at the object \<open>a\<close> and following the properties
  named \<open>ks\<close>, one after the other, leads through the objects \<open>bs\<close>; every step is
  a property of a plain object that holds a reference.

  \<open>memberAt p s t\<close>: the text \<open>s\<close> is a JSON object in which the path \<open>p\<close> of
  member names leads to the text \<open>t\<close>; with the empty path, \<open>s\<close> is \<open>t\<close> itself.
\<close>

fun path :: "heap \<Rightarrow> addr \<Rightarrow> string list \<Rightarrow> addr list \<Rightarrow> bool" where
  "path h a [] bs = (bs = [])"
| "path h a (k # ks) [] = False"
| "path h a (k # ks) (b # bs) =
     (case objAt h a of
        ThrowingObject \<Rightarrow> False
      | PlainObject ps \<Rightarrow> (k, JRef b) \<in> set ps \<and> path h b ks bs)"

inductive memberAt :: "string list \<Rightarrow> string \<Rightarrow> string \<Rightarrow> bool" where
  here: "memberAt [] t t"
| inside: "(k, Some s) \<in> set ms \<Longrightarrow> memberAt p s t \<Longrightarrow> memberAt (k # p) (renderObject ms) t"

section \<open>Notions used in the proofs\<close>

text \<open>
  The names an assignment in the loop of \<^verbatim>\<open>extractConfiguredPrimaryKey\<close> makes
  properties of.
\<close>

definition ownNames :: "string list \<Rightarrow> string list" where
  "ownNames keys = filter (\<lambda>f. f \<noteq> ''__proto__'') keys"

text \<open>
  The state of the traversal while objects are open: the objects on the stack are
  distinct objects of the heap, and all in \<open>seen\<close>.
\<close>

definition openObjects :: "heap \<Rightarrow> addr list \<Rightarrow> addr set \<Rightarrow> bool" where
  "openObjects h st seen = (distinct st \<and> set st \<subseteq> seen \<and> set st \<subseteq> {..<length h})"

section \<open>Rules for evaluating the model\<close>

declare serializeJSONProperty.simps [simp del]

lemma decNat_small: "n < 10 \<Longrightarrow> decNat n = [digitChar n]"
  by (subst decNat.simps) simp

lemma decNat_big: "10 \<le> n \<Longrightarrow> decNat n = decNat (n div 10) @ [digitChar (n mod 10)]"
  by (subst decNat.simps) simp

lemma replicate_numeral: "replicate (numeral k) x = x # replicate (pred_numeral k) x"
  by (simp add: numeral_eq_Suc)

lemmas text_defs = decNat_small decNat_big digitChar_def padLeft_def replicate_numeral decInt_def
  bigintToString_def functionText_def objectToString_def

lemmas date_defs = timeClip_def msPerDay_def dayNumber_def era_def dayOfEra_def yearOfEra_def dayOfYear_def
  marchMonth_def monthFromDays_def dateFromDays_def yearFromDays_def weekDay_def
  hourFromTime_def minFromTime_def secFromTime_def msFromTime_def isoYear_def toISOString_def
  dayNames_def monthNames_def localTime_def timeZoneString_def dateString_def timeString_def
  dateToString_def

lemmas json_defs = timeClip_def toJSON_def replacer_def objAt_def serializeJSONProperty.simps
  enumerableOwnProperties_def isArrayIndex_def isDigit_def parseDecimal_def digitValue_def
  renderObject_def quoteJSONString_def quoteChar_def hexDigit_def circularPlaceholder_def
  jsonValue_def

lemmas read_defs = getField_def getProp_def setProp_def inherited_def
  objectPrototypeMethods_def

lemmas pk_defs = extractPrimaryKey_def lookupKey_def inheritedKey_def
  extractConfiguredPrimaryKey_def configuredFields_def read_defs safeStringifyForPK_def
  stringifyRecord_def fallbackKey_def objectKeys_def Let_def

section \<open>The loop over the configured fields\<close>


lemma set_putProp: "fst ` set (putProp ps k v) = insert k (fst ` set ps)"
proof (induction ps)
  case Nil
  then show ?case by simp
next
  case (Cons p ps)
  obtain k' v' where p: "p = (k', v')" by (cases p)
  show ?case
  proof (cases "k' = k")
    case True
    with p show ?thesis by simp
  next
    case False
    with p Cons.IH show ?thesis by (simp add: insert_commute)
  qed
qed

lemma distinct_putProp: "distinct (map fst ps) \<Longrightarrow> distinct (map fst (putProp ps k v))"
proof (induction ps)
  case Nil
  then show ?case by simp
next
  case (Cons p ps)
  obtain k' v' where p: "p = (k', v')" by (cases p)
  from Cons p show ?case using set_putProp[of ps k v] by auto
qed

lemma putProp_written: "(k, v) \<in> set (putProp ps k v)"
  by (induction ps) auto

lemma putProp_kept: "(f, w) \<in> set ps \<Longrightarrow> k \<noteq> f \<or> v = w \<Longrightarrow> (f, w) \<in> set (putProp ps k v)"
  by (induction ps) auto

lemma resolveFields_present:
  "\<forall>f\<in>set keys. \<not> isNullish (getField r f) \<Longrightarrow>
   \<exists>resolved. resolveFields r keys acc = Some resolved
      \<and> fst ` set resolved = fst ` set acc \<union> set (ownNames keys)
      \<and> (distinct (map fst acc) \<longrightarrow> distinct (map fst resolved))"
proof (induction keys arbitrary: acc)
  case Nil
  then show ?case by (simp add: ownNames_def)
next
  case (Cons f keys)
  from Cons.prems have "\<forall>f\<in>set keys. \<not> isNullish (getField r f)" by simp
  from Cons.IH[OF this, of "setProp acc f (getField r f)"] Cons.prems
  show ?case
    by (auto simp: Let_def setProp_def ownNames_def set_putProp distinct_putProp)
qed

lemma resolveFields_kept:
  "resolveFields r keys acc = Some resolved \<Longrightarrow> (f, getField r f) \<in> set acc \<Longrightarrow>
   (f, getField r f) \<in> set resolved"
proof (induction keys arbitrary: acc)
  case Nil
  then show ?case by simp
next
  case (Cons k keys)
  from Cons.prems(1) have
    n: "resolveFields r keys (setProp acc k (getField r k)) = Some resolved"
    by (simp add: Let_def split: if_splits)
  have "(f, getField r f) \<in> set (setProp acc k (getField r k))"
    using Cons.prems(2) putProp_kept[of f "getField r f" acc k "getField r k"]
    by (auto simp: setProp_def)
  from Cons.IH[OF n this] show ?case .
qed

lemma resolveFields_holds:
  "resolveFields r keys acc = Some resolved \<Longrightarrow> f \<in> set keys \<Longrightarrow> f \<noteq> ''__proto__'' \<Longrightarrow>
   (f, getField r f) \<in> set resolved"
proof (induction keys arbitrary: acc)
  case Nil
  then show ?case by simp
next
  case (Cons k keys)
  from Cons.prems(1) have
    n: "resolveFields r keys (setProp acc k (getField r k)) = Some resolved"
    by (simp add: Let_def split: if_splits)
  show ?case
  proof (cases "k = f")
    case True
    with Cons.prems(3) have "(f, getField r f) \<in> set (setProp acc k (getField r k))"
      by (simp add: setProp_def putProp_written)
    from resolveFields_kept[OF n this] show ?thesis .
  next
    case False
    with Cons.prems(2) have "f \<in> set keys" by simp
    from Cons.IH[OF n this Cons.prems(3)] show ?thesis .
  qed
qed

lemma resolveFields_cong:
  "\<forall>f\<in>set keys. getField r1 f = getField r2 f \<Longrightarrow>
   resolveFields r1 keys acc = resolveFields r2 keys acc"
  by (induction keys arbitrary: acc) (auto simp: Let_def)

text \<open>
  The identity is a function of what the configured fields read as: two rows that read
  the same there, whatever else they hold, get the same identity.
\<close>

lemma extractPrimaryKey_reads_configured_fields_only:
  assumes "pkMap table = Some k"
    and "\<forall>f\<in>set (configuredFields k). getField r1 f = getField r2 f"
  shows "extractPrimaryKey tz h r1 table pkMap = extractPrimaryKey tz h r2 table pkMap"
  using assms resolveFields_cong[of "configuredFields k" r1 r2 "[]"]
  by (simp add: extractPrimaryKey_def lookupKey_def extractConfiguredPrimaryKey_def)

text \<open>
  With a single configured field that is present, the identity is \<^verbatim>\<open>String\<close> of what
  the field reads as: the decimal text of an integer or a BigInt, a string as it is, for
  a date the text of \<^verbatim>\<open>Date.prototype.toString\<close>; and the call raises where
  \<^verbatim>\<open>String\<close> does.
\<close>

lemma single_field_key_is_String:
  assumes "pkMap table = Some k" and "k = Single f \<and> f \<noteq> [] \<or> k = Fields [f]"
    and "\<not> isNullish (getField r f)"
  shows "extractPrimaryKey tz h r table pkMap =
           (case jsString tz h (getField r f) of Inl e \<Rightarrow> Inl (Uncaught e) | Inr s \<Rightarrow> Inr s)"
proof -
  have "getProp (setProp [] f (getField r f)) f = getField r f"
    by (simp add: getProp_def setProp_def getField_def inherited_def)
  with assms show ?thesis
    by (auto simp: extractPrimaryKey_def lookupKey_def extractConfiguredPrimaryKey_def
        configuredFields_def Let_def split: sum.splits)
qed

section \<open>The order of the properties\<close>

lemma set_enumerableOwnProperties [simp]: "set (enumerableOwnProperties ps) = set ps"
  by (auto simp: enumerableOwnProperties_def)

lemma distinct_enumerableOwnProperties:
  "distinct (map fst ps) \<Longrightarrow> distinct (map fst (enumerableOwnProperties ps))"
  by (auto simp: enumerableOwnProperties_def distinct_map inj_on_def)

lemma sort_objectKeys:
  assumes "resolveFields r keys [] = Some resolved"
    and "\<forall>f\<in>set keys. \<not> isNullish (getField r f)"
  shows "sort (objectKeys resolved) = sort (remdups (ownNames keys))"
proof -
  from resolveFields_present[OF assms(2), of "[]"] assms(1)
  have s: "fst ` set resolved = set (ownNames keys)" and d: "distinct (map fst resolved)"
    by auto
  have "set (objectKeys resolved) = set (ownNames keys)" using s by (simp add: objectKeys_def)
  moreover have "distinct (objectKeys resolved)"
    using d by (simp add: objectKeys_def distinct_enumerableOwnProperties)
  ultimately show ?thesis
    by (intro sorted_distinct_set_unique) simp_all
qed

lemma fallbackKey_fields:
  assumes "resolveFields r keys [] = Some resolved"
    and "\<forall>f\<in>set keys. \<not> isNullish (getField r f)"
  shows "fallbackKey resolved =
           ''composite_key_'' @ joinWith ''_'' (sort (remdups (ownNames keys))) @ ''_''
           @ decNat (length (remdups (ownNames keys)))"
proof -
  have "length (sort (objectKeys resolved)) = length (sort (remdups (ownNames keys)))"
    using sort_objectKeys[OF assms] by simp
  then show ?thesis
    using sort_objectKeys[OF assms] by (simp add: fallbackKey_def Let_def)
qed

section \<open>Facts about the traversal\<close>

lemma objAt_not_throwing: "ThrowingObject \<notin> set h \<Longrightarrow> objAt h a \<noteq> ThrowingObject"
  by (metis jsobj.distinct(1) nth_mem objAt_def)

lemma toJSON_total:
  "ThrowingObject \<notin> set h \<Longrightarrow> \<exists>v1. toJSON h v = Inr v1 \<and> (\<forall>tv. v1 \<noteq> JDate tv)"
  using objAt_not_throwing[of h]
  by (cases v) (auto simp: toJSON_def split: option.splits jsobj.splits)

lemma replacer_total:
  "\<forall>tv. v1 \<noteq> JDate tv \<Longrightarrow>
   \<exists>v2 seen1. replacer seen v1 = Inr (v2, seen1) \<and> (\<forall>i. v2 \<noteq> JBigInt i)"
  by (cases v1) (auto simp: replacer_def)

lemma openObjects_depth: "openObjects h st seen \<Longrightarrow> length st \<le> length h"
proof -
  assume "openObjects h st seen"
  then have d: "distinct st" and s: "set st \<subseteq> {..<length h}" by (auto simp: openObjects_def)
  from d have "length st = card (set st)" by (simp add: distinct_card)
  also from s have "card (set st) \<le> card {..<length h}" by (intro card_mono) auto
  finally show ?thesis by simp
qed

text \<open>
  On a heap without throwing objects, and with a call stack that holds as many levels as
  the heap has objects, the traversal never raises: the replacer has replaced a
  reference to an object on the stack before the serializer could find it there, and
  the objects on the stack are distinct, so they are never more than the heap has.
\<close>

lemma no_raise:
  "ThrowingObject \<notin> set h \<Longrightarrow> length h \<le> stackDepth tz \<Longrightarrow> openObjects h st seen \<Longrightarrow>
     \<exists>r seen'. serializeJSONProperty tz h st seen v = Inr (r, seen')"
  "ThrowingObject \<notin> set h \<Longrightarrow> length h \<le> stackDepth tz \<Longrightarrow> openObjects h st seen \<Longrightarrow>
     \<exists>ms seen'. serializeJSONProperties tz h st seen ps = Inr (ms, seen')"
proof (induction tz h st seen v and tz h st seen ps
    rule: serializeJSONProperty_serializeJSONProperties.induct)
  case (1 tz h stack seen v)
  from toJSON_total[OF "1.prems"(1), of v] obtain v1 where
    v1: "toJSON h v = Inr v1" and nd: "\<forall>tv. v1 \<noteq> JDate tv" by blast
  from replacer_total[OF nd, of seen] obtain v2 seen1 where
    r: "replacer seen v1 = Inr (v2, seen1)" and nb: "\<forall>i. v2 \<noteq> JBigInt i" by blast
  show ?case
  proof (cases v2)
    case (JRef a)
    with r have new: "a \<notin> seen" "seen1 = insert a seen" using replacer_JRef by auto
    with "1.prems"(3) have fresh: "a \<notin> set stack" by (auto simp: openObjects_def)
    from openObjects_depth[OF "1.prems"(3)] "1.prems"(2)
    have room: "\<not> stackDepth tz < length stack" by simp
    from objAt_not_throwing[OF "1.prems"(1), of a] obtain ps where
      ps: "objAt h a = PlainObject ps"
      by (cases "objAt h a") auto
    show ?thesis
    proof (cases "a < length h")
      case True
      with new fresh "1.prems"(3) have "openObjects h (a # stack) seen1"
        by (auto simp: openObjects_def)
      from "1.IH"[OF v1 r refl JRef fresh room ps "1.prems"(1,2) this]
      obtain ms seen2 where
        "serializeJSONProperties tz h (a # stack) seen1 (enumerableOwnProperties ps)
           = Inr (ms, seen2)"
        by blast
      with v1 r JRef fresh room ps show ?thesis
        by (simp add: serializeJSONProperty.simps)
    next
      case False
      with ps have "ps = []" by (simp add: objAt_def)
      with v1 r JRef fresh room ps show ?thesis
        by (simp add: serializeJSONProperty.simps enumerableOwnProperties_def)
    qed
  qed (use v1 r nb in \<open>simp_all add: serializeJSONProperty.simps\<close>)
next
  case (2 tz h stack seen)
  then show ?case by simp
next
  case (3 tz h stack seen k v ps)
  from "3.IH"(1)[OF "3.prems"] obtain s seen1 where
    s: "serializeJSONProperty tz h stack seen v = Inr (s, seen1)" by blast
  then have "seen \<subseteq> seen1" by (rule seen_mono)
  with "3.prems"(3) have "openObjects h stack seen1" by (auto simp: openObjects_def)
  from "3.IH"(2)[OF s refl "3.prems"(1,2) this] obtain ms seen2 where
    "serializeJSONProperties tz h stack seen1 ps = Inr (ms, seen2)" by blast
  with s show ?case by simp
qed

lemma seen_reference_placeholder:
  assumes "b \<in> seen" and "serializeJSONProperty tz h st seen (JRef b) = Inr (r, seen')"
  shows "r = Some (quoteJSONString circularPlaceholder) \<and> seen' = seen"
  using assms
  by (auto simp: serializeJSONProperty.simps toJSON_def replacer_def split: jsobj.splits)

lemma object_members:
  assumes "serializeJSONProperty tz h st seen (JRef a) = Inr (r, seen')"
    and "a \<notin> seen" and "objAt h a = PlainObject ps"
  shows "\<exists>ms. serializeJSONProperties tz h (a # st) (insert a seen) (enumerableOwnProperties ps)
              = Inr (ms, seen') \<and> r = Some (renderObject ms)"
  using assms
  by (auto simp: serializeJSONProperty.simps toJSON_def replacer_def
      split: sum.splits prod.splits if_splits)

text \<open>Every property of an object is serialized, under a \<open>seen\<close> that has only grown.\<close>

lemma member_of_property:
  "serializeJSONProperties tz h st seen ps = Inr (ms, seen') \<Longrightarrow> (k, v) \<in> set ps \<Longrightarrow>
   \<exists>seen1 seen2 t. seen \<subseteq> seen1 \<and> serializeJSONProperty tz h st seen1 v = Inr (t, seen2)
      \<and> (k, t) \<in> set ms"
proof (induction ps arbitrary: seen ms)
  case Nil
  then show ?case by simp
next
  case (Cons p ps)
  obtain k' v' where p: "p = (k', v')" by (cases p)
  from Cons.prems(1) p obtain s seen1 ms' where
    s: "serializeJSONProperty tz h st seen v' = Inr (s, seen1)" and
    t: "serializeJSONProperties tz h st seen1 ps = Inr (ms', seen')" and
    ms: "ms = (k', s) # ms'"
    by (auto split: sum.splits prod.splits)
  show ?case
  proof (cases "(k, v) = p")
    case True
    with p s ms show ?thesis by auto
  next
    case False
    with Cons.prems(2) have "(k, v) \<in> set ps" by simp
    from Cons.IH[OF t this] obtain seen2 seen3 u where
      "seen1 \<subseteq> seen2" "serializeJSONProperty tz h st seen2 v = Inr (u, seen3)" "(k, u) \<in> set ms'"
      by blast
    moreover from seen_mono(1)[OF s] have "seen \<subseteq> seen1" .
    ultimately have "seen \<subseteq> seen2 \<and> serializeJSONProperty tz h st seen2 v = Inr (u, seen3)
        \<and> (k, u) \<in> set ms"
      using ms by auto
    then show ?thesis by blast
  qed
qed

text \<open>
  Along a path that ends at an object already seen, or at one the path itself has
  passed, the text has the placeholder: at the end of the path, or before it where an
  object on the way had been seen already.
\<close>

lemma closing_path_marked:
  "serializeJSONProperty tz h st seen (JRef a) = Inr (res, seen') \<Longrightarrow> path h a ks bs \<Longrightarrow>
   ks \<noteq> [] \<Longrightarrow> last bs \<in> seen \<union> set (a # butlast bs) \<Longrightarrow>
   \<exists>s q q'. res = Some s \<and> ks = q @ q' \<and> memberAt q s (quoteJSONString circularPlaceholder)"
proof (induction ks arbitrary: a bs st seen res seen')
  case Nil
  then show ?case by simp
next
  case (Cons k ks)
  show ?case
  proof (cases "a \<in> seen")
    case True
    from seen_reference_placeholder[OF True Cons.prems(1)]
    have "res = Some (quoteJSONString circularPlaceholder)" by simp
    moreover have "k # ks = [] @ (k # ks)" by simp
    moreover have "memberAt [] (quoteJSONString circularPlaceholder)
        (quoteJSONString circularPlaceholder)" by (rule memberAt.here)
    ultimately show ?thesis by blast
  next
    case False
    from Cons.prems(2) obtain b bs' ps where
      bs: "bs = b # bs'" and ps: "objAt h a = PlainObject ps" and
      edge: "(k, JRef b) \<in> set ps" and rest: "path h b ks bs'"
      by (cases bs; cases "objAt h a") auto
    from object_members[OF Cons.prems(1) False ps] obtain ms where
      ms: "serializeJSONProperties tz h (a # st) (insert a seen) (enumerableOwnProperties ps)
             = Inr (ms, seen')" and
      res: "res = Some (renderObject ms)"
      by blast
    from edge have "(k, JRef b) \<in> set (enumerableOwnProperties ps)" by simp
    from member_of_property[OF ms this] obtain seen1 seen2 t where
      grow: "insert a seen \<subseteq> seen1" and
      t: "serializeJSONProperty tz h (a # st) seen1 (JRef b) = Inr (t, seen2)" and
      mem: "(k, t) \<in> set ms"
      by blast
    show ?thesis
    proof (cases "ks = []")
      case True
      with rest have "bs' = []" by simp
      with bs Cons.prems(4) grow have "b \<in> seen1" by auto
      from seen_reference_placeholder[OF this t]
      have "t = Some (quoteJSONString circularPlaceholder)" by simp
      with mem have "memberAt [k] (renderObject ms) (quoteJSONString circularPlaceholder)"
        using memberAt.inside[OF _ memberAt.here] by blast
      moreover from True have "k # ks = [k] @ []" by simp
      ultimately show ?thesis using res by blast
    next
      case more: False
      with rest have ne: "bs' \<noteq> []" by (cases ks; cases bs') auto
      with bs Cons.prems(4) grow have "last bs' \<in> seen1 \<union> set (b # butlast bs')" by auto
      from Cons.IH[OF t rest more this] obtain s q q' where
        s: "t = Some s" and q: "ks = q @ q'" and
        m: "memberAt q s (quoteJSONString circularPlaceholder)"
        by blast
      from mem s m have "memberAt (k # q) (renderObject ms) (quoteJSONString circularPlaceholder)"
        using memberAt.inside by blast
      moreover from q have "k # ks = (k # q) @ q'" by simp
      ultimately show ?thesis using res by blast
    qed
  qed
qed

section \<open>The identifier pattern\<close>

lemma char_eq_code: "c = d \<longleftrightarrow> (of_char c :: nat) = of_char d"
  by auto

lemma le_char_code: "c \<le> d \<longleftrightarrow> (of_char c :: nat) \<le> of_char d"
  by (simp add: less_eq_char_def)

lemma range_enum: "(a::nat) \<le> n \<and> n \<le> b \<longleftrightarrow> n \<in> set [a..<Suc b]"
  by auto

lemma isIdentPart_chars:
  "isIdentPart c \<longleftrightarrow>
     c \<in> set ''abcdefghijklmnopqrstuvwxyzABCDEFGHIJKLMNOPQRSTUVWXYZ0123456789_''"
  unfolding isIdentPart_def le_char_code range_enum
  by (simp add: char_eq_code[of c])

lemma isDigit_chars: "isDigit c \<longleftrightarrow> c \<in> set ''0123456789''"
  unfolding isDigit_def le_char_code range_enum
  by (simp add: char_eq_code[of c])

lemma isIdentStart_iff: "isIdentStart c \<longleftrightarrow> isIdentPart c \<and> \<not> isDigit c"
  unfolding isIdentStart_def isIdentPart_def isDigit_def le_char_code
  by (auto simp: char_eq_code[of c])

lemma matchesIdentifier_iff:
  "matchesIdentifier name \<longleftrightarrow>
     name \<noteq> [] \<and> set name \<subseteq> set ''abcdefghijklmnopqrstuvwxyzABCDEFGHIJKLMNOPQRSTUVWXYZ0123456789_''
     \<and> hd name \<notin> set ''0123456789''"
proof -
  define A where "A = set ''abcdefghijklmnopqrstuvwxyzABCDEFGHIJKLMNOPQRSTUVWXYZ0123456789_''"
  define D where "D = set ''0123456789''"
  have part: "isIdentPart c \<longleftrightarrow> c \<in> A" for c
    unfolding A_def by (rule isIdentPart_chars)
  have start: "isIdentStart c \<longleftrightarrow> c \<in> A \<and> c \<notin> D" for c
    unfolding A_def D_def isIdentStart_iff isIdentPart_chars isDigit_chars ..
  have "matchesIdentifier name \<longleftrightarrow> name \<noteq> [] \<and> set name \<subseteq> A \<and> hd name \<notin> D"
  proof (cases name)
    case Nil
    then show ?thesis by simp
  next
    case (Cons c cs)
    then show ?thesis by (auto simp: part start list_all_iff)
  qed
  then show ?thesis unfolding A_def D_def .
qed

section \<open>Claims about the identity of a row\<close>

subsection \<open>C3: a missing key field\<close>




text \<open>
  Likewise, with the key \<open>toString\<close> the identity of the empty row is the text of the
  function; and a table without entry that is named like a property of
  \<^verbatim>\<open>Object.prototype\<close> gets the missing-key error, not the configuration error.
\<close>

lemma inherited_properties_are_read:
  \<open>extractPrimaryKey tz [] Map.empty ''users'' [''users'' \<mapsto> Single ''toString'']
    = Inr ''function toString() { [native code] }''\<close>
  \<open>extractPrimaryKey tz [] [''id'' \<mapsto> JNum (NInt 1)] ''constructor''
      [''users'' \<mapsto> Single ''id'']
    = Inl (MissingKeyError ''constructor'')\<close>
  by (simp_all add: pk_defs json_defs text_defs)

subsection \<open>C4: equal key values, different identities\<close>

text \<open>
  C4. Two rows of \<open>docs\<close>, keyed by \<open>a\<close> and \<open>b\<close>, carry equal values in both key
  fields: the object \<^verbatim>\<open>{x: 1}\<close>. In the first row the two fields hold one and the same
  object, in the second two objects with the same content. The identities differ: the
  replacer never removes an object from \<open>seen\<close>, so the second visit of the shared
  object is taken for a cycle.
\<close>

theorem shared_reference_changes_identity:
  \<open>extractPrimaryKey tz
      [PlainObject [(''x'', JNum (NInt 1))], PlainObject [(''x'', JNum (NInt 1))]]
      [''a'' \<mapsto> JRef 0, ''b'' \<mapsto> JRef 0] ''docs'' [''docs'' \<mapsto> Fields [''a'', ''b'']]
    = Inr ''{"a":{"x":1},"b":"[Circular]"}''
   \<and> extractPrimaryKey tz
      [PlainObject [(''x'', JNum (NInt 1))], PlainObject [(''x'', JNum (NInt 1))]]
      [''a'' \<mapsto> JRef 0, ''b'' \<mapsto> JRef 1] ''docs'' [''docs'' \<mapsto> Fields [''a'', ''b'']]
    = Inr ''{"a":{"x":1},"b":{"x":1}}''\<close>
  by (simp add: pk_defs json_defs text_defs)

subsection \<open>C5: a date as single key\<close>

text \<open>
  C5. A row of \<open>events\<close> whose single key field \<open>id\<close> is the date of the epoch, on a
  host in UTC. The identity is the text of \<^verbatim>\<open>Date.prototype.toString\<close>, which depends
  on the time zone of the host, and not the ISO-8601 text. The composite path renders
  the same date in ISO-8601.
\<close>

theorem single_date_key_not_iso:
  \<open>extractPrimaryKey
      \<lparr>tzOffsetMinutes = 0, tzName = ''Coordinated Universal Time'', stackDepth = 1000\<rparr> []
      [''id'' \<mapsto> JDate (Some 0)] ''events'' [''events'' \<mapsto> Single ''id'']
    = Inr ''Thu Jan 01 1970 00:00:00 GMT+0000 (Coordinated Universal Time)''
   \<and> extractPrimaryKey
      \<lparr>tzOffsetMinutes = 0, tzName = ''Coordinated Universal Time'', stackDepth = 1000\<rparr> []
      [''id'' \<mapsto> JDate (Some 0), ''n'' \<mapsto> JNum (NInt 1)] ''events''
      [''events'' \<mapsto> Fields [''id'', ''n'']]
    = Inr ''{"id":"1970-01-01T00:00:00.000Z","n":1}''
   \<and> toISOString 0 = ''1970-01-01T00:00:00.000Z''\<close>
  by (simp add: pk_defs json_defs date_defs text_defs)

subsection \<open>C6: reference cycles\<close>

text \<open>
  C6, as amended. For a key of other than one field, all present on the row, and every
  heap, cyclic or not:

  \<^item> \<open>extractPrimaryKey\<close> returns a string; the traversal is defined by well-founded
    recursion, so it returns on every heap.
  \<^item> When no object has a \<^verbatim>\<open>toJSON\<close> that throws and the call stack of the host
    holds as many levels as the heap has objects, \<^verbatim>\<open>JSON.stringify\<close> raises nothing:
    neither its own \<^verbatim>\<open>TypeError\<close> for a cyclic structure nor the \<^verbatim>\<open>RangeError\<close> of
    an exhausted stack. A cycle by itself makes it raise nothing: the nesting is
    never deeper than the number of objects.
  \<^item> Whenever \<^verbatim>\<open>JSON.stringify\<close> returns, the identity is the text it returned, and
    every reference that closes a cycle is the placeholder in it: for every key field
    \<open>f\<close> that holds an object and every path of properties from that object that
    ends at an object it started from or has passed, the text has \<^verbatim>\<open>"[Circular]"\<close>
    under \<open>f\<close> at the end of the path, or earlier on the path, where an object on
    the way had been serialized before.

  When \<^verbatim>\<open>JSON.stringify\<close> raises, the identity is the fallback of C7, which marks no
  cycle.
\<close>

theorem cycles_serialize_with_placeholder:
  assumes "pkMap table = Some (Fields keys)"
    and "length keys \<noteq> 1"
    and "\<forall>f\<in>set keys. \<not> isNullish (getField r f)"
  shows "\<exists>resolved. resolveFields r keys [] = Some resolved
       \<and> (\<exists>s. extractPrimaryKey tz h r table pkMap = Inr s)
       \<and> (ThrowingObject \<notin> set h \<and> length h \<le> stackDepth tz
            \<longrightarrow> (\<exists>s. stringifyRecord tz h resolved = Inr s))
       \<and> (\<forall>s. stringifyRecord tz h resolved = Inr s \<longrightarrow>
              extractPrimaryKey tz h r table pkMap = Inr s
            \<and> (\<forall>f a ks bs.
                  f \<in> set keys \<and> getField r f = Value (JRef a) \<and> path h a ks bs
                  \<and> ks \<noteq> [] \<and> last bs \<in> set (a # butlast bs)
                  \<longrightarrow> (\<exists>q q'. ks = q @ q'
                         \<and> memberAt (f # q) s (quoteJSONString circularPlaceholder))))"
proof -
  from resolveFields_present[OF assms(3), of "[]"] obtain resolved where
    res: "resolveFields r keys [] = Some resolved" by blast
  have pk: "extractPrimaryKey tz h r table pkMap = Inr (safeStringifyForPK tz h resolved)"
    using assms(1,2) res
    by (simp add: extractPrimaryKey_def lookupKey_def extractConfiguredPrimaryKey_def
        configuredFields_def)
  then have returns: "\<exists>s. extractPrimaryKey tz h r table pkMap = Inr s" by blast
  have quiet: "\<exists>s. stringifyRecord tz h resolved = Inr s"
    if "ThrowingObject \<notin> set h" and "length h \<le> stackDepth tz"
  proof -
    have "openObjects h [] {}" by (simp add: openObjects_def)
    from no_raise(2)[OF that this] obtain ms seen' where
      "serializeJSONProperties tz h [] {}
         (map (\<lambda>(k, v). (k, jsonValue h v)) (enumerableOwnProperties resolved)) = Inr (ms, seen')"
      by blast
    then show ?thesis by (simp add: stringifyRecord_def)
  qed
  have marked: "extractPrimaryKey tz h r table pkMap = Inr s
       \<and> (\<forall>f a ks bs.
            f \<in> set keys \<and> getField r f = Value (JRef a) \<and> path h a ks bs
            \<and> ks \<noteq> [] \<and> last bs \<in> set (a # butlast bs)
            \<longrightarrow> (\<exists>q q'. ks = q @ q'
                   \<and> memberAt (f # q) s (quoteJSONString circularPlaceholder)))"
    if s: "stringifyRecord tz h resolved = Inr s" for s
  proof (intro conjI allI impI)
    show "extractPrimaryKey tz h r table pkMap = Inr s"
      using pk s by (simp add: safeStringifyForPK_def)
  next
    fix f a ks bs
    assume c: "f \<in> set keys \<and> getField r f = Value (JRef a) \<and> path h a ks bs
        \<and> ks \<noteq> [] \<and> last bs \<in> set (a # butlast bs)"
    from s obtain ms seen' where
      ms: "serializeJSONProperties tz h [] {}
             (map (\<lambda>(k, v). (k, jsonValue h v)) (enumerableOwnProperties resolved))
           = Inr (ms, seen')" and
      rendered: "s = renderObject ms"
      by (auto simp: stringifyRecord_def split: sum.splits prod.splits)
    from c have "f \<noteq> ''__proto__''" by (auto simp: getField_def)
    from resolveFields_holds[OF res _ this] c have "(f, Value (JRef a)) \<in> set resolved"
      by auto
    then have "(f, JRef a) \<in>
        set (map (\<lambda>(k, v). (k, jsonValue h v)) (enumerableOwnProperties resolved))"
      by (force simp: jsonValue_def)
    from member_of_property[OF ms this] obtain seen1 seen2 t where
      t: "serializeJSONProperty tz h [] seen1 (JRef a) = Inr (t, seen2)" and
      mem: "(f, t) \<in> set ms"
      by blast
    from c have p: "path h a ks bs" and ne: "ks \<noteq> []" and
      closes: "last bs \<in> seen1 \<union> set (a # butlast bs)"
      by auto
    from closing_path_marked[OF t p ne closes] obtain u q q' where
      "t = Some u" and q: "ks = q @ q'" and
      "memberAt q u (quoteJSONString circularPlaceholder)"
      by blast
    with mem have "memberAt (f # q) (renderObject ms) (quoteJSONString circularPlaceholder)"
      using memberAt.inside by blast
    with rendered q show "\<exists>q q'. ks = q @ q'
        \<and> memberAt (f # q) s (quoteJSONString circularPlaceholder)"
      by blast
  qed
  from res returns quiet marked show ?thesis by blast
qed

text \<open>
  A \<open>node\<close> whose child refers back to it and to itself. The two paths \<open>child\<close>,
  \<open>parent\<close> and \<open>child\<close>, \<open>self\<close> close a cycle, and the identity has the
  placeholder on both.
\<close>

theorem cycles_serialize_with_placeholder_witness:
  \<open>extractPrimaryKey \<lparr>tzOffsetMinutes = 0, tzName = ''UTC'', stackDepth = 1000\<rparr>
      [PlainObject [(''name'', JStr ''root''), (''child'', JRef 1)],
       PlainObject [(''parent'', JRef 0), (''self'', JRef 1)]]
      [''node'' \<mapsto> JRef 0, ''rev'' \<mapsto> JNum (NInt 2)] ''trees''
      [''trees'' \<mapsto> Fields [''node'', ''rev'']]
    = Inr ''{"node":{"name":"root","child":{"parent":"[Circular]","self":"[Circular]"}},"rev":2}''
   \<and> path [PlainObject [(''name'', JStr ''root''), (''child'', JRef 1)],
            PlainObject [(''parent'', JRef 0), (''self'', JRef 1)]]
        0 [''child'', ''parent''] [1, 0]
   \<and> (\<exists>q q'. [''child'', ''parent''] = q @ q'
         \<and> memberAt (''node'' # q)
              ''{"node":{"name":"root","child":{"parent":"[Circular]","self":"[Circular]"}},"rev":2}''
              ''"[Circular]"'')
   \<and> path [PlainObject [(''name'', JStr ''root''), (''child'', JRef 1)],
            PlainObject [(''parent'', JRef 0), (''self'', JRef 1)]]
        0 [''child'', ''self''] [1, 1]
   \<and> (\<exists>q q'. [''child'', ''self''] = q @ q'
         \<and> memberAt (''node'' # q)
              ''{"node":{"name":"root","child":{"parent":"[Circular]","self":"[Circular]"}},"rev":2}''
              ''"[Circular]"'')\<close>
proof -
  let ?h = "[PlainObject [(''name'', JStr ''root''), (''child'', JRef 1)],
             PlainObject [(''parent'', JRef 0), (''self'', JRef 1)]]"
  let ?r = "[''node'' \<mapsto> JRef 0, ''rev'' \<mapsto> JNum (NInt 2)]"
  let ?pk = "[''trees'' \<mapsto> Fields [''node'', ''rev'']]"
  let ?tz = "\<lparr>tzOffsetMinutes = 0, tzName = ''UTC'', stackDepth = 1000\<rparr>"
  let ?s = \<open>''{"node":{"name":"root","child":{"parent":"[Circular]","self":"[Circular]"}},"rev":2}''\<close>
  have 1: "?pk ''trees'' = Some (Fields [''node'', ''rev''])" by simp
  have 2: "length [''node'', ''rev''] \<noteq> 1" by simp
  have 3: "\<forall>f\<in>set [''node'', ''rev'']. \<not> isNullish (getField ?r f)"
    by (simp add: read_defs)
  from cycles_serialize_with_placeholder[where pkMap = ?pk and table = "''trees''"
      and tz = ?tz and h = ?h, OF 1 2 3]
  obtain resolved where
    a: "resolveFields ?r [''node'', ''rev''] [] = Some resolved" and
    b: "\<And>s. stringifyRecord ?tz ?h resolved = Inr s \<Longrightarrow>
          extractPrimaryKey ?tz ?h ?r ''trees'' ?pk = Inr s
          \<and> (\<forall>f a ks bs.
                f \<in> set [''node'', ''rev''] \<and> getField ?r f = Value (JRef a) \<and> path ?h a ks bs
                \<and> ks \<noteq> [] \<and> last bs \<in> set (a # butlast bs)
                \<longrightarrow> (\<exists>q q'. ks = q @ q'
                       \<and> memberAt (f # q) s (quoteJSONString circularPlaceholder)))"
    by blast
  from a have "resolved = [(''node'', Value (JRef 0)), (''rev'', Value (JNum (NInt 2)))]"
    by (simp add: read_defs Let_def)
  then have "stringifyRecord ?tz ?h resolved = Inr ?s"
    by (simp add: stringifyRecord_def json_defs text_defs)
  from b[OF this] have
    first: "extractPrimaryKey ?tz ?h ?r ''trees'' ?pk = Inr ?s" and
    marked: "\<And>f a ks bs.
        f \<in> set [''node'', ''rev''] \<and> getField ?r f = Value (JRef a) \<and> path ?h a ks bs
        \<and> ks \<noteq> [] \<and> last bs \<in> set (a # butlast bs)
        \<Longrightarrow> \<exists>q q'. ks = q @ q' \<and> memberAt (f # q) ?s (quoteJSONString circularPlaceholder)"
    by blast+
  have q: \<open>quoteJSONString circularPlaceholder = ''"[Circular]"''\<close>
    by (simp add: json_defs)
  have field: "getField ?r ''node'' = Value (JRef 0)" by (simp add: read_defs)
  have parent: "path ?h 0 [''child'', ''parent''] [1, 0]" by (simp add: objAt_def)
  have self: "path ?h 0 [''child'', ''self''] [1, 1]" by (simp add: objAt_def)
  from marked[of "''node''" 0 "[''child'', ''parent'']" "[1, 0]"] field parent
  have mp: \<open>\<exists>q q'. [''child'', ''parent''] = q @ q' \<and> memberAt (''node'' # q) ?s ''"[Circular]"''\<close>
    unfolding q by simp
  from marked[of "''node''" 0 "[''child'', ''self'']" "[1, 1]"] field self
  have ms: \<open>\<exists>q q'. [''child'', ''self''] = q @ q' \<and> memberAt (''node'' # q) ?s ''"[Circular]"''\<close>
    unfolding q by simp
  from first parent mp self ms show ?thesis by blast
qed

text \<open>
  C6 as stated fails where \<^verbatim>\<open>JSON.stringify\<close> raises. The key field \<open>a\<close> holds an
  object that refers to itself, the key field \<open>b\<close> an object whose \<^verbatim>\<open>toJSON\<close>
  throws: the identity is the fallback, in which no reference is replaced by the
  placeholder.
\<close>

theorem throwing_toJSON_beside_cycle_counterexample:
  \<open>extractPrimaryKey \<lparr>tzOffsetMinutes = 0, tzName = ''UTC'', stackDepth = 1000\<rparr>
      [PlainObject [(''self'', JRef 0)], ThrowingObject]
      [''a'' \<mapsto> JRef 0, ''b'' \<mapsto> JRef 1] ''t'' [''t'' \<mapsto> Fields [''a'', ''b'']]
    = Inr ''composite_key_a_b_2''
   \<and> path [PlainObject [(''self'', JRef 0)], ThrowingObject] 0 [''self''] [0]
   \<and> (\<forall>q. \<not> memberAt q ''composite_key_a_b_2'' (quoteJSONString circularPlaceholder))\<close>
proof (intro conjI allI)
  show \<open>extractPrimaryKey \<lparr>tzOffsetMinutes = 0, tzName = ''UTC'', stackDepth = 1000\<rparr>
      [PlainObject [(''self'', JRef 0)], ThrowingObject]
      [''a'' \<mapsto> JRef 0, ''b'' \<mapsto> JRef 1] ''t'' [''t'' \<mapsto> Fields [''a'', ''b'']]
    = Inr ''composite_key_a_b_2''\<close>
    by (simp add: pk_defs json_defs text_defs)
  show "path [PlainObject [(''self'', JRef 0)], ThrowingObject] 0 [''self''] [0]"
    by (simp add: objAt_def)
  fix q
  show "\<not> memberAt q ''composite_key_a_b_2'' (quoteJSONString circularPlaceholder)"
  proof
    assume "memberAt q ''composite_key_a_b_2'' (quoteJSONString circularPlaceholder)"
    then show False
      by (cases rule: memberAt.cases) (simp_all add: json_defs)
  qed
qed

text \<open>
  So does a stack that is too short for the nesting. On a host whose stack holds one
  level inside the object of a key field, a chain of three objects that ends in a cycle
  exhausts it, and the identity is the fallback again.
\<close>

lemma exhausted_stack_falls_back:
  \<open>extractPrimaryKey \<lparr>tzOffsetMinutes = 0, tzName = ''UTC'', stackDepth = 1\<rparr>
      [PlainObject [(''next'', JRef 1)], PlainObject [(''next'', JRef 2)],
       PlainObject [(''next'', JRef 0)]]
      [''a'' \<mapsto> JRef 0, ''b'' \<mapsto> JNum (NInt 1)] ''t'' [''t'' \<mapsto> Fields [''a'', ''b'']]
    = Inr ''composite_key_a_b_2''\<close>
  by (simp add: pk_defs json_defs text_defs)

subsection \<open>C7: the fallback\<close>

text \<open>
  C7. For every row, table and primary-key specification whose entry for the table is a
  list of other than one field, all of them present on the row: \<open>extractPrimaryKey\<close>
  returns an identity and raises nothing. The identity is the JSON text when
  \<^verbatim>\<open>JSON.stringify\<close> returns, and when it raises, whatever it raises, the fallback:
  \<^verbatim>\<open>composite_key_\<close>, the distinct field names in sorted order joined by \<^verbatim>\<open>_\<close>, and
  their number. The field names are those the loop has made properties of: every
  configured name but \<^verbatim>\<open>__proto__\<close>, which is assigned to the accessor.
\<close>

theorem composite_key_never_raises:
  assumes "pkMap table = Some (Fields keys)"
    and "length keys \<noteq> 1"
    and "\<forall>f\<in>set keys. \<not> isNullish (getField r f)"
  shows "\<exists>resolved. resolveFields r keys [] = Some resolved \<and>
           extractPrimaryKey tz h r table pkMap =
             Inr (case stringifyRecord tz h resolved of
                    Inr s \<Rightarrow> s
                  | Inl e \<Rightarrow>
                      ''composite_key_''
                      @ joinWith ''_'' (sort (remdups (filter (\<lambda>f. f \<noteq> ''__proto__'') keys)))
                      @ ''_''
                      @ decNat (length (remdups (filter (\<lambda>f. f \<noteq> ''__proto__'') keys))))"
proof -
  from resolveFields_present[OF assms(3), of "[]"] obtain resolved where
    res: "resolveFields r keys [] = Some resolved" by blast
  have "extractPrimaryKey tz h r table pkMap = Inr (safeStringifyForPK tz h resolved)"
    using assms(1,2) res
    by (simp add: extractPrimaryKey_def lookupKey_def extractConfiguredPrimaryKey_def
        configuredFields_def)
  then show ?thesis
    using res fallbackKey_fields[OF res assms(3)]
    by (auto simp: safeStringifyForPK_def ownNames_def split: sum.splits)
qed

text \<open>
  A row of \<open>t\<close> keyed by \<open>b\<close> and \<open>a\<close>, whose \<open>b\<close> is an object with a \<^verbatim>\<open>toJSON\<close>
  that throws: the identity is the fallback.
\<close>

theorem composite_key_never_raises_witness:
  "extractPrimaryKey \<lparr>tzOffsetMinutes = 0, tzName = ''UTC'', stackDepth = 1000\<rparr> [ThrowingObject]
     [''b'' \<mapsto> JRef 0, ''a'' \<mapsto> JNum (NInt 1)] ''t'' [''t'' \<mapsto> Fields [''b'', ''a'']]
   = Inr ''composite_key_a_b_2''"
proof -
  let ?r = "[''b'' \<mapsto> JRef 0, ''a'' \<mapsto> JNum (NInt 1)]"
  let ?pk = "[''t'' \<mapsto> Fields [''b'', ''a'']]"
  let ?tz = "\<lparr>tzOffsetMinutes = 0, tzName = ''UTC'', stackDepth = 1000\<rparr>"
  have 1: "?pk ''t'' = Some (Fields [''b'', ''a''])" by simp
  have 2: "length [''b'', ''a''] \<noteq> 1" by simp
  have 3: "\<forall>f\<in>set [''b'', ''a'']. \<not> isNullish (getField ?r f)" by (simp add: read_defs)
  from composite_key_never_raises[where pkMap = ?pk and table = "''t''"
      and tz = ?tz and h = "[ThrowingObject]", OF 1 2 3]
  obtain resolved where
    a: "resolveFields ?r [''b'', ''a''] [] = Some resolved" and
    b: "extractPrimaryKey ?tz [ThrowingObject] ?r ''t'' ?pk =
          Inr (case stringifyRecord ?tz [ThrowingObject] resolved of
                 Inr s \<Rightarrow> s
               | Inl e \<Rightarrow>
                   ''composite_key_''
                   @ joinWith ''_''
                       (sort (remdups (filter (\<lambda>f. f \<noteq> ''__proto__'') [''b'', ''a''])))
                   @ ''_''
                   @ decNat (length (remdups (filter (\<lambda>f. f \<noteq> ''__proto__'') [''b'', ''a'']))))"
    by blast
  from a have "resolved = [(''b'', Value (JRef 0)), (''a'', Value (JNum (NInt 1)))]"
    by (simp add: read_defs Let_def)
  moreover have
    "stringifyRecord ?tz [ThrowingObject]
       [(''b'', Value (JRef 0)), (''a'', Value (JNum (NInt 1)))] = Inl Thrown"
    by (simp add: stringifyRecord_def json_defs)
  ultimately show ?thesis using b by (simp add: text_defs)
qed

text \<open>
  A key that lists \<^verbatim>\<open>__proto__\<close> next to \<open>a\<close>: the name is read (it is
  \<^verbatim>\<open>Object.prototype\<close>, so it is present) but becomes no property, and the fallback
  names and counts \<open>a\<close> alone.
\<close>

lemma proto_is_no_property:
  "extractPrimaryKey tz [ThrowingObject] [''a'' \<mapsto> JRef 0] ''t''
     [''t'' \<mapsto> Fields [''__proto__'', ''a'']]
   = Inr ''composite_key_a_1''"
  by (simp add: pk_defs json_defs text_defs)

subsection \<open>C9: an empty list of key fields\<close>

text \<open>
  C9. For every row: when the primary-key specification maps the table to the empty
  list of fields, \<open>extractPrimaryKey\<close> does not fail and returns the text \<^verbatim>\<open>{}\<close>, the
  same for every row of the table.
\<close>

theorem empty_key_list_constant:
  assumes "pkMap table = Some (Fields [])"
  shows "extractPrimaryKey tz h r table pkMap = Inr ''{}''"
  using assms
  by (simp add: extractPrimaryKey_def lookupKey_def extractConfiguredPrimaryKey_def
      configuredFields_def safeStringifyForPK_def stringifyRecord_def renderObject_def)

theorem empty_key_list_constant_witness:
  "extractPrimaryKey \<lparr>tzOffsetMinutes = 0, tzName = ''UTC'', stackDepth = 1000\<rparr> []
     [''id'' \<mapsto> JNum (NInt 1)] ''logs'' [''logs'' \<mapsto> Fields []] = Inr ''{}''
   \<and> extractPrimaryKey \<lparr>tzOffsetMinutes = 0, tzName = ''UTC'', stackDepth = 1000\<rparr> []
     [''id'' \<mapsto> JNum (NInt 2)] ''logs'' [''logs'' \<mapsto> Fields []] = Inr ''{}''"
  using empty_key_list_constant[of "[''logs'' \<mapsto> Fields []]" "''logs''"]
  by simp

section \<open>Claims about the migration\<close>

subsection \<open>C8: the table name is validated\<close>

text \<open>
  C8. \<open>createAuditTableSQLFor\<close> produces the SQL for exactly the names made of ASCII
  letters, digits and underscores that are not empty and do not start with a digit, and
  fails with \<^verbatim>\<open>Invalid table name\<close> for every other name. So a name reaches the text of
  the SQL only after it has matched the pattern.
\<close>

theorem createAuditTableSQLFor_validates:
  "createAuditTableSQLFor (Some name) =
     (if name \<noteq> []
         \<and> set name \<subseteq> set ''abcdefghijklmnopqrstuvwxyzABCDEFGHIJKLMNOPQRSTUVWXYZ0123456789_''
         \<and> hd name \<notin> set ''0123456789''
      then Inr (unlines (auditTableSQLLines name))
      else Inl (Error (''Invalid table name: '' @ name)))"
  unfolding matchesIdentifier_iff[symmetric]
  by (simp add: createAuditTableSQLFor_def buildCreateAuditTableSQL_def assertSafeIdentifier_def)

theorem createAuditTableSQLFor_validates_witness:
  "createAuditTableSQLFor (Some ''audit_2024'') = Inr (unlines (auditTableSQLLines ''audit_2024''))
   \<and> createAuditTableSQLFor (Some ''2024_audit'') = Inl (Error ''Invalid table name: 2024_audit'')
   \<and> createAuditTableSQLFor (Some ''x; DROP TABLE users'')
       = Inl (Error ''Invalid table name: x; DROP TABLE users'')
   \<and> createAuditTableSQLFor (Some '''') = Inl (Error ''Invalid table name: '')"
  using createAuditTableSQLFor_validates[of "''audit_2024''"]
    createAuditTableSQLFor_validates[of "''2024_audit''"]
    createAuditTableSQLFor_validates[of "''x; DROP TABLE users''"]
    createAuditTableSQLFor_validates[of "''''"]
  by simp

subsection \<open>Reading the migration line by line\<close>

lemma splitLines_line:
  "CHR 0x0A \<notin> set l \<Longrightarrow> splitLines acc (l @ CHR 0x0A # rest) = (rev acc @ l) # splitLines [] rest"
  by (induction l arbitrary: acc) auto

lemma sqlLines_unlines:
  "\<forall>l\<in>set ls. CHR 0x0A \<notin> set l \<Longrightarrow> sqlLines (unlines ls) = ls"
proof (induction ls)
  case Nil
  then show ?case by (simp add: sqlLines_def unlines_def)
next
  case (Cons l ls)
  then have "splitLines [] (l @ CHR 0x0A # unlines ls) = l # splitLines [] (unlines ls)"
    using splitLines_line[of l "[]" "unlines ls"] by simp
  with Cons show ?case by (simp add: sqlLines_def unlines_def)
qed

lemma identifier_chars:
  assumes "matchesIdentifier name"
  shows "CHR 0x0A \<notin> set name" and "CHR ''('' \<notin> set name" and "CHR '' '' \<notin> set name"
  using assms unfolding matchesIdentifier_iff by auto

lemma lines_without_break:
  assumes "matchesIdentifier name"
  shows "\<forall>l\<in>set (auditTableSQLLines name). CHR 0x0A \<notin> set l"
  using identifier_chars(1)[OF assms] by (simp add: auditTableSQLLines_def)

lemma takeWhile_identifier:
  assumes "matchesIdentifier name"
  shows "takeWhile (\<lambda>c. c \<noteq> CHR ''('') (name @ CHR ''('' # rest) = name"
  using identifier_chars(2)[OF assms] by (subst takeWhile_append2) auto

lemma createdIndexes_lines:
  assumes "matchesIdentifier name"
  shows "List.map_filter createdIndex (auditTableSQLLines name) =
     [(''idx_audit_logs_table_record'', name),
      (''idx_audit_logs_user_id'', name),
      (''idx_audit_logs_created_at'', name),
      (''idx_audit_logs_action'', name),
      (''idx_audit_logs_table_created'', name)]"
  using takeWhile_identifier[OF assms]
  by (simp add: auditTableSQLLines_def createdIndex_def List.map_filter_simps)


lemma jsonbColumnLines_lines:
  \<open>filter declaresJsonbColumn (auditTableSQLLines name) =
     [''  "values" JSONB,'', ''  metadata JSONB,'']\<close>
  by (simp add: auditTableSQLLines_def declaresJsonbColumn_def endsWith_def)

subsection \<open>C10: the names of the indexes\<close>

text \<open>
  C10. For every table name that matches the pattern, the SQL of
  \<open>createAuditTableSQLFor\<close> creates five indexes on that table, and their names are the
  fixed names of the default schema, all starting with \<^verbatim>\<open>idx_audit_logs_\<close>, whatever
  the table is called. The migrations of two tables with different names therefore ask
  for indexes of the same names.
\<close>

theorem index_names_ignore_table_name:
  assumes "matchesIdentifier name"
  shows "\<exists>sql. createAuditTableSQLFor (Some name) = Inr sql
           \<and> createdIndexes sql =
               [(''idx_audit_logs_table_record'', name),
                (''idx_audit_logs_user_id'', name),
                (''idx_audit_logs_created_at'', name),
                (''idx_audit_logs_action'', name),
                (''idx_audit_logs_table_created'', name)]
           \<and> map fst (createdIndexes sql) = map fst auditLogsIndexes"
proof -
  have "createAuditTableSQLFor (Some name) = Inr (unlines (auditTableSQLLines name))"
    using assms
    by (simp add: createAuditTableSQLFor_def buildCreateAuditTableSQL_def assertSafeIdentifier_def)
  moreover have "createdIndexes (unlines (auditTableSQLLines name)) =
      List.map_filter createdIndex (auditTableSQLLines name)"
    using sqlLines_unlines[OF lines_without_break[OF assms]] by (simp add: createdIndexes_def)
  ultimately show ?thesis
    using createdIndexes_lines[OF assms] by (simp add: auditLogsIndexes_def)
qed

text \<open>The migrations of \<open>audit_a\<close> and \<open>audit_b\<close>.\<close>

theorem index_names_ignore_table_name_witness:
  "\<exists>first second.
      createAuditTableSQLFor (Some ''audit_a'') = Inr first
    \<and> createAuditTableSQLFor (Some ''audit_b'') = Inr second
    \<and> map fst (createdIndexes first) = map fst (createdIndexes second)
    \<and> map snd (createdIndexes first) = replicate 5 ''audit_a''
    \<and> map snd (createdIndexes second) = replicate 5 ''audit_b''"
proof -
  have a: "matchesIdentifier ''audit_a''" and b: "matchesIdentifier ''audit_b''"
    by (simp_all add: isIdentStart_def isIdentPart_def)
  from index_names_ignore_table_name[OF a] obtain first where
    1: "createAuditTableSQLFor (Some ''audit_a'') = Inr first"
       "map fst (createdIndexes first) = map fst auditLogsIndexes"
       "map snd (createdIndexes first) = replicate 5 ''audit_a''"
    by (auto simp: numeral_eq_Suc)
  from index_names_ignore_table_name[OF b] obtain second where
    2: "createAuditTableSQLFor (Some ''audit_b'') = Inr second"
       "map fst (createdIndexes second) = map fst auditLogsIndexes"
       "map snd (createdIndexes second) = replicate 5 ''audit_b''"
    by (auto simp: numeral_eq_Suc)
  from 1 2 show ?thesis by auto
qed

subsection \<open>C2: the payload columns\<close>

lemma json_columns_of_migration:
  assumes "matchesIdentifier name"
  shows \<open>\<exists>sql. createAuditTableSQLFor (Some name) = Inr sql
            \<and> jsonbColumnLines sql = [''  "values" JSONB,'', ''  metadata JSONB,'']\<close>
proof -
  have "createAuditTableSQLFor (Some name) = Inr (unlines (auditTableSQLLines name))"
    using assms
    by (simp add: createAuditTableSQLFor_def buildCreateAuditTableSQL_def assertSafeIdentifier_def)
  moreover have "jsonbColumnLines (unlines (auditTableSQLLines name)) =
      filter declaresJsonbColumn (auditTableSQLLines name)"
    using sqlLines_unlines[OF lines_without_break[OF assms]] by (simp add: jsonbColumnLines_def)
  ultimately show ?thesis
    using jsonbColumnLines_lines by simp
qed

text \<open>
  C2. The table definition declares two JSON columns, both nullable: \<open>values\<close> and
  \<open>metadata\<close>, the second for the caller's context. No column has the property
  \<open>oldValues\<close> or \<open>newValues\<close>, or the name \<^verbatim>\<open>old_values\<close> or \<^verbatim>\<open>new_values\<close>, and
  the migration of the default table declares the same two JSON columns. The schema
  has a single column for a snapshot where the claim, and the test that reads
  \<open>oldValues\<close> and \<open>newValues\<close> from rows selected through this table, expect two.
\<close>

theorem one_snapshot_column_only:
  \<open>map (\<lambda>c. (property c, columnName c, notNull c))
      (filter (\<lambda>c. columnType c = Jsonb) auditLogs)
    = [(''values'', ''values'', False), (''metadata'', ''metadata'', False)]
   \<and> \<not> (\<exists>c\<in>set auditLogs.
          property c = ''oldValues'' \<or> property c = ''newValues''
          \<or> columnName c = ''old_values'' \<or> columnName c = ''new_values'')
   \<and> (\<exists>sql. createAuditTableSQL = Inr sql
         \<and> jsonbColumnLines sql = [''  "values" JSONB,'', ''  metadata JSONB,''])\<close>
proof -
  have "matchesIdentifier ''audit_logs''"
    by (simp add: isIdentStart_def isIdentPart_def)
  from json_columns_of_migration[OF this]
  have \<open>\<exists>sql. createAuditTableSQL = Inr sql
         \<and> jsonbColumnLines sql = [''  "values" JSONB,'', ''  metadata JSONB,'']\<close>
    by (simp add: createAuditTableSQL_def createAuditTableSQLFor_def DEFAULT_TABLE_NAME_def)
  then show ?thesis by (simp add: auditLogs_def col_def)
qed

section \<open>Claim about the DELETE path\<close>

lemma buildDeleteRecords_identities:
  "buildDeleteRecords tz h table pkSpec rows =
     (case extractPrimaryKeys tz h rows table pkSpec of
        Inl e \<Rightarrow> Inl e
      | Inr identities \<Rightarrow> Inr (map2 (deleteRecord table) rows identities))"
  by (induction rows) (auto split: sum.splits)

lemma extractPrimaryKeys_length:
  "extractPrimaryKeys tz h rows table pkSpec = Inr identities \<Longrightarrow> length identities = length rows"
  by (induction rows arbitrary: identities) (auto split: sum.splits)

text \<open>
  C1, as amended. Under every configuration, and whether or not the caller asked for it,
  the DELETE that is executed requests the report of the rows it removes. A DELETE that
  removes no row yields no record and no error. A DELETE that removes rows yields one
  record per removed row, in order, when the identity of every removed row resolves:
  action DELETE, the row as \<open>oldValues\<close>, no \<open>newValues\<close>, no \<open>changedFields\<close>, and
  the identity of the row as \<open>recordId\<close>. When the identity of a removed row does not
  resolve, the derivation fails with the error of the first such row and yields no
  record.
\<close>

theorem delete_audits_each_removed_row:
  "requestsReturning (interceptDelete cfg stmt)
   \<and> auditDelete cfg tz h pkSpec stmt [] = Inr []
   \<and> auditDelete cfg tz h pkSpec stmt removed =
       (case extractPrimaryKeys tz h removed (target stmt) pkSpec of
          Inl e \<Rightarrow> Inl e
        | Inr identities \<Rightarrow> Inr (map2 (deleteRecord (target stmt)) removed identities))
   \<and> (\<forall>identities. extractPrimaryKeys tz h removed (target stmt) pkSpec = Inr identities
        \<longrightarrow> length (map2 (deleteRecord (target stmt)) removed identities) = length removed)"
  using extractPrimaryKeys_length[of tz h removed "target stmt" pkSpec]
  by (simp add: auditDelete_def interceptDelete_def reportedRows_def
      buildDeleteRecords_identities)

text \<open>
  Two rows of \<open>users\<close> removed by a statement that did not ask for them, under a
  configuration without capture: two records.
\<close>

theorem delete_audits_each_removed_row_witness:
  "auditDelete \<lparr>captureBefore = False\<rparr>
      \<lparr>tzOffsetMinutes = 0, tzName = ''UTC'', stackDepth = 1000\<rparr> []
      [''users'' \<mapsto> Single ''id''] \<lparr>target = ''users'', requestsReturning = False\<rparr>
      [[''id'' \<mapsto> JNum (NInt 1), ''name'' \<mapsto> JStr ''A''], [''id'' \<mapsto> JNum (NInt 2)]]
    = Inr [deleteRecord ''users'' [''id'' \<mapsto> JNum (NInt 1), ''name'' \<mapsto> JStr ''A''] ''1'',
           deleteRecord ''users'' [''id'' \<mapsto> JNum (NInt 2)] ''2'']"
proof -
  let ?tz = "\<lparr>tzOffsetMinutes = 0, tzName = ''UTC'', stackDepth = 1000\<rparr>"
  let ?pk = "[''users'' \<mapsto> Single ''id'']"
  let ?rows = "[[''id'' \<mapsto> JNum (NInt 1), ''name'' \<mapsto> JStr ''A''], [''id'' \<mapsto> JNum (NInt 2)]]"
  let ?stmt = "\<lparr>target = ''users'', requestsReturning = False\<rparr>"
  have ids: "extractPrimaryKeys ?tz [] ?rows (target ?stmt) ?pk = Inr [''1'', ''2'']"
    by (simp add: pk_defs text_defs)
  from delete_audits_each_removed_row[of "\<lparr>captureBefore = False\<rparr>" ?stmt ?tz "[]" ?pk ?rows]
  have "auditDelete \<lparr>captureBefore = False\<rparr> ?tz [] ?pk ?stmt ?rows =
        (case extractPrimaryKeys ?tz [] ?rows (target ?stmt) ?pk of
           Inl e \<Rightarrow> Inl e
         | Inr identities \<Rightarrow> Inr (map2 (deleteRecord (target ?stmt)) ?rows identities))"
    by blast
  then show ?thesis unfolding ids by simp
qed

text \<open>
  C1 as stated fails where the identity of a removed row does not resolve. A DELETE
  removes two rows of \<open>users\<close>, keyed by \<open>id\<close>; the second has no \<open>id\<close>. No
  record is produced, not even of the first row.
\<close>

theorem unresolved_identity_aborts_delete_counterexample:
  "auditDelete \<lparr>captureBefore = True\<rparr>
      \<lparr>tzOffsetMinutes = 0, tzName = ''UTC'', stackDepth = 1000\<rparr> []
      [''users'' \<mapsto> Single ''id''] \<lparr>target = ''users'', requestsReturning = True\<rparr>
      [[''id'' \<mapsto> JNum (NInt 1)], [''name'' \<mapsto> JStr ''B'']]
    = Inl (MissingKeyError ''users'')"
  by (simp add: auditDelete_def interceptDelete_def reportedRows_def pk_defs text_defs)

end
